theory Spec2Isabelle
  imports Main
begin

section \<open>Values, syntax tree nodes and exceptions\<close>

text \<open>
  The program is \<^verbatim>\<open>transpiler.py\<close>: a lexer and an LALR(1) parser declared through the
  PLY library, a class \<^verbatim>\<open>Node\<close> for the syntax tree, the recursive function
  \<^verbatim>\<open>generate_code\<close> and the entry point \<^verbatim>\<open>transpile\<close>.

  A text is a list of characters with codes below 256, so the inputs of the model are
  the Python strings of such characters.

  Scalar payloads are Python values: \<^verbatim>\<open>None\<close>, a \<^verbatim>\<open>str\<close>, a non-negative \<^verbatim>\<open>int\<close>
  (the lexer only builds integers from the digits it matched) or a \<^verbatim>\<open>float\<close>. The only
  thing the program ever does with a float is to print it, so a float is represented
  by the text \<^verbatim>\<open>str\<close> gives for it.
\<close>

datatype pyval = VNone | VStr string | VInt nat | VFloat string

text \<open>
  \<^verbatim>\<open>class Node\<close>: the fields \<^verbatim>\<open>type\<close>, \<^verbatim>\<open>children\<close> and \<^verbatim>\<open>value\<close>. The node type is a
  string in the source and stays one here.
\<close>

datatype node = Node (ntype: string) (children: "node list") (nvalue: pyval)

text \<open>
  Exceptions are values. \<^verbatim>\<open>SyntaxError\<close> is what \<^verbatim>\<open>t_error\<close> and \<^verbatim>\<open>p_error\<close> raise and
  what \<^verbatim>\<open>transpile\<close> catches. \<^verbatim>\<open>ValueError\<close> is what \<^verbatim>\<open>int\<close> raises in \<^verbatim>\<open>t_NUMBER\<close> on
  a text with more digits than the interpreter converts. The others are what
  \<^verbatim>\<open>generate_code\<close> would raise on a tree of the wrong shape (a missing child, an
  operator outside \<^verbatim>\<open>op_map\<close>, a parameter whose name is not a string).

  The interpreter also bounds the depth of recursion, by a limit that counts the
  frames of the caller too. That bound is not part of the model: \<^verbatim>\<open>generate_code\<close>
  here returns on every tree, where the source raises \<^verbatim>\<open>RecursionError\<close> on a tree
  nested deeper than the frames that are left (an expression of about a thousand
  \<^verbatim>\<open>!\<close> in a row). No \<^verbatim>\<open>except\<close> clause of the source catches it either.
\<close>

datatype exn = SyntaxError string | ValueError | IndexError | KeyError | TypeError

subsection \<open>Printing values\<close>

fun str_nat :: "nat \<Rightarrow> string" where
  "str_nat n =
     (if n < 10 then [''0123456789'' ! n]
      else str_nat (n div 10) @ [''0123456789'' ! (n mod 10)])"

declare str_nat.simps [simp del]

text \<open>\<^verbatim>\<open>str(v)\<close>, which is also what an f-string does with \<^verbatim>\<open>{v}\<close>.\<close>

fun py_str :: "pyval \<Rightarrow> string" where
  "py_str VNone = ''None''"
| "py_str (VStr s) = s"
| "py_str (VInt n) = str_nat n"
| "py_str (VFloat r) = r"

text \<open>\<^verbatim>\<open>', '.join(c.value for c in nodes)\<close>: every value has to be a string.\<close>

fun join_values :: "node list \<Rightarrow> exn + string" where
  "join_values [] = Inr []"
| "join_values [c] = (case nvalue c of VStr s \<Rightarrow> Inr s | _ \<Rightarrow> Inl TypeError)"
| "join_values (c # cs) =
     (case nvalue c of
        VStr s \<Rightarrow> (case join_values cs of Inl e \<Rightarrow> Inl e | Inr r \<Rightarrow> Inr (s @ '', '' @ r))
      | _ \<Rightarrow> Inl TypeError)"

text \<open>The dictionary \<^verbatim>\<open>op_map\<close> of \<^verbatim>\<open>generate_code\<close>.\<close>

definition op_map :: "string \<rightharpoonup> string" where
  "op_map = map_of
     [(''+'', ''+''), (''-'', ''-''), (''*'', ''*''), (''/'', ''/''), (''<'', ''<''),
      (''>'', ''>''), (''&&'', ''and''), (''||'', ''or'')]"

definition op_map_lookup :: "pyval \<Rightarrow> exn + string" where
  "op_map_lookup v =
     (case v of
        VStr s \<Rightarrow> (case op_map s of Some r \<Rightarrow> Inr r | None \<Rightarrow> Inl KeyError)
      | _ \<Rightarrow> Inl KeyError)"

section \<open>The code generator\<close>

text \<open>
  \<^verbatim>\<open>generate_code(node, indent)\<close>, branch by branch in the order of the source's
  \<^verbatim>\<open>if\<close>/\<^verbatim>\<open>elif\<close> chain. \<^verbatim>\<open>node.children[i]\<close> raises \<^verbatim>\<open>IndexError\<close> when the child is
  missing; the pieces of an f-string are evaluated from left to right, so the first
  failing piece decides the exception. A node type that no branch knows leaves
  \<^verbatim>\<open>result\<close> empty. \<^verbatim>\<open>generate_children\<close> is the loop
  \<^verbatim>\<open>for child in node.children: result += generate_code(child, indent)\<close>, and
  \<^verbatim>\<open>class_fields\<close> is the loop over the declarations of a class.
\<close>

definition indent_str :: "nat \<Rightarrow> string" where
  "indent_str indent = concat (replicate indent ''    '')"

fun class_fields :: "string \<Rightarrow> node list \<Rightarrow> string" where
  "class_fields ind [] = []"
| "class_fields ind (decl # decls) =
     ind @ ''        self.'' @ py_str (nvalue decl) @ '' = 0\<newline>'' @ class_fields ind decls"

fun generate_code :: "node \<Rightarrow> nat \<Rightarrow> exn + string"
  and generate_children :: "node list \<Rightarrow> nat \<Rightarrow> exn + string" where
  "generate_code (Node t cs v) indent =
     (if t = ''program'' \<or> t = ''statements'' then generate_children cs indent
      else if t = ''declaration'' then
        (case cs of
           [] \<Rightarrow> Inr (indent_str indent @ py_str v @ '' = 0\<newline>'')
         | c0 # _ \<Rightarrow>
             (case generate_code c0 0 of Inl e \<Rightarrow> Inl e
              | Inr a \<Rightarrow> Inr (indent_str indent @ py_str v @ '' = '' @ a @ ''\<newline>'')))
      else if t = ''assignment'' then
        (case cs of
           [] \<Rightarrow> Inl IndexError
         | c0 # _ \<Rightarrow>
             (case generate_code c0 0 of Inl e \<Rightarrow> Inl e
              | Inr a \<Rightarrow> Inr (indent_str indent @ py_str v @ '' = '' @ a @ ''\<newline>'')))
      else if t = ''increment'' then
        Inr (indent_str indent @ py_str v @ '' = '' @ py_str v @ '' + 1\<newline>'')
      else if t = ''if'' then
        (case cs of
           [] \<Rightarrow> Inl IndexError
         | c0 # r1 \<Rightarrow>
             (case generate_code c0 0 of Inl e \<Rightarrow> Inl e
              | Inr a \<Rightarrow>
                  (case r1 of
                     [] \<Rightarrow> Inl IndexError
                   | c1 # r2 \<Rightarrow>
                       (case generate_code c1 (indent + 1) of Inl e \<Rightarrow> Inl e
                        | Inr b \<Rightarrow>
                            (case r2 of
                               [] \<Rightarrow> Inr (indent_str indent @ ''if '' @ a @ '':\<newline>'' @ b)
                             | c2 # _ \<Rightarrow>
                                 (case generate_code c2 (indent + 1) of Inl e \<Rightarrow> Inl e
                                  | Inr c \<Rightarrow>
                                      Inr (indent_str indent @ ''if '' @ a @ '':\<newline>'' @ b
                                           @ indent_str indent @ ''else:\<newline>'' @ c)))))))
      else if t = ''for'' then
        (case cs of
           [] \<Rightarrow> Inl IndexError
         | c0 # r1 \<Rightarrow>
             (case generate_code c0 0 of Inl e \<Rightarrow> Inl e
              | Inr a \<Rightarrow>
                  (case r1 of
                     [] \<Rightarrow> Inl IndexError
                   | c1 # r2 \<Rightarrow>
                       (case generate_code c1 0 of Inl e \<Rightarrow> Inl e
                        | Inr b \<Rightarrow>
                            (case r2 of
                               [] \<Rightarrow> Inl IndexError
                             | c2 # _ \<Rightarrow>
                                 (case generate_code c2 (indent + 1) of Inl e \<Rightarrow> Inl e
                                  | Inr body \<Rightarrow>
                                      Inr (indent_str indent @ ''for '' @ py_str v @ '' in range(''
                                           @ a @ '', '' @ b @ ''):\<newline>'' @ body)))))))
      else if t = ''while'' then
        (case cs of
           [] \<Rightarrow> Inl IndexError
         | c0 # r1 \<Rightarrow>
             (case generate_code c0 0 of Inl e \<Rightarrow> Inl e
              | Inr a \<Rightarrow>
                  (case r1 of
                     [] \<Rightarrow> Inl IndexError
                   | c1 # _ \<Rightarrow>
                       (case generate_code c1 (indent + 1) of Inl e \<Rightarrow> Inl e
                        | Inr body \<Rightarrow>
                            Inr (indent_str indent @ ''while '' @ a @ '':\<newline>'' @ body)))))
      else if t = ''function'' then
        (case cs of
           [] \<Rightarrow> Inl IndexError
         | c0 # r1 \<Rightarrow>
             (case join_values (children c0) of Inl e \<Rightarrow> Inl e
              | Inr params \<Rightarrow>
                  (case r1 of
                     [] \<Rightarrow> Inl IndexError
                   | c1 # _ \<Rightarrow>
                       (case generate_code c1 (indent + 1) of Inl e \<Rightarrow> Inl e
                        | Inr body \<Rightarrow>
                            Inr (indent_str indent @ ''def '' @ py_str v @ ''('' @ params
                                 @ ''):\<newline>'' @ body)))))
      else if t = ''class'' then
        (case cs of
           [] \<Rightarrow> Inl IndexError
         | c0 # _ \<Rightarrow>
             Inr (indent_str indent @ ''class '' @ py_str v @ '':\<newline>''
                  @ indent_str indent @ ''    def __init__(self):\<newline>''
                  @ class_fields (indent_str indent) (children c0)))
      else if t = ''output'' then
        (let newline = (if v = VStr ''endl'' then [CHR 0x5C, CHR ''n''] else []) in
         case cs of
           [] \<Rightarrow> Inl IndexError
         | c0 # _ \<Rightarrow>
             (case generate_code c0 0 of Inl e \<Rightarrow> Inl e
              | Inr a \<Rightarrow>
                  Inr (indent_str indent @ ''print('' @ a @ '', end='' @ [CHR 0x27] @ newline
                       @ [CHR 0x27] @ '')\<newline>'')))
      else if t = ''return'' then
        (case cs of
           [] \<Rightarrow> Inl IndexError
         | c0 # _ \<Rightarrow>
             (case generate_code c0 0 of Inl e \<Rightarrow> Inl e
              | Inr a \<Rightarrow> Inr (indent_str indent @ ''return '' @ a @ ''\<newline>'')))
      else if t = ''binop'' then
        (case cs of
           [] \<Rightarrow> Inl IndexError
         | c0 # r1 \<Rightarrow>
             (case generate_code c0 0 of Inl e \<Rightarrow> Inl e
              | Inr a \<Rightarrow>
                  (case op_map_lookup v of Inl e \<Rightarrow> Inl e
                   | Inr op \<Rightarrow>
                       (case r1 of
                          [] \<Rightarrow> Inl IndexError
                        | c1 # _ \<Rightarrow>
                            (case generate_code c1 0 of Inl e \<Rightarrow> Inl e
                             | Inr b \<Rightarrow> Inr (a @ '' '' @ op @ '' '' @ b))))))
      else if t = ''unop'' then
        (case cs of
           [] \<Rightarrow> Inl IndexError
         | c0 # _ \<Rightarrow>
             (case generate_code c0 0 of Inl e \<Rightarrow> Inl e | Inr a \<Rightarrow> Inr (''not '' @ a)))
      else if t = ''literal'' then Inr (py_str v)
      else Inr [])"
| "generate_children [] indent = Inr []"
| "generate_children (child # rest) indent =
     (case generate_code child indent of Inl e \<Rightarrow> Inl e
      | Inr a \<Rightarrow>
          (case generate_children rest indent of Inl e \<Rightarrow> Inl e | Inr b \<Rightarrow> Inr (a @ b)))"

section \<open>The lexer\<close>

text \<open>
  \<^verbatim>\<open>lexer = lex.lex()\<close> builds one module-level scanner from the \<^verbatim>\<open>t_\<close> rules. A token
  has a type, a value and the line counter's value when it was made; the scanner
  keeps the text still to be read and its line counter \<^verbatim>\<open>lineno\<close>.
\<close>

record token =
  toktype :: string
  tokvalue :: pyval
  toklineno :: nat

record lexer =
  lexdata :: string
  lineno :: nat

subsection \<open>The regular expressions of the rules\<close>

text \<open>
  Each rule is a function from the text at the scanning position to the length of
  the rule's match there, as Python's \<^verbatim>\<open>re\<close> finds it (greedy, first alternative
  first). The classes \<^verbatim>\<open>\d\<close>, \<^verbatim>\<open>\w\<close> and \<^verbatim>\<open>\s\<close> of a string pattern are Python's
  Unicode classes, here on the characters below 256: \<^verbatim>\<open>\d\<close> is a decimal digit,
  \<^verbatim>\<open>\w\<close> is the underscore or a character that \<^verbatim>\<open>str.isalnum\<close> accepts, \<^verbatim>\<open>\s\<close> a
  character that \<^verbatim>\<open>str.isspace\<close> accepts. The ranges written out in \<^verbatim>\<open>t_IDENTIFIER\<close>
  are ASCII.
\<close>

definition is_digit :: "char \<Rightarrow> bool" where
  "is_digit c = (c \<in> set ''0123456789'')"

definition is_letter :: "char \<Rightarrow> bool" where
  "is_letter c = (c \<in> set ''abcdefghijklmnopqrstuvwxyzABCDEFGHIJKLMNOPQRSTUVWXYZ_'')"

definition is_word :: "char \<Rightarrow> bool" where
  "is_word c = (is_letter c \<or> is_digit c)"

text \<open>
  \<^verbatim>\<open>\w\<close>: beyond ASCII, the letters, the superscript digits and the fractions of
  Latin-1.
\<close>

definition is_alnum_latin1 :: "char \<Rightarrow> bool" where
  "is_alnum_latin1 c =
     (let k = (of_char c :: nat) in
      k \<in> set [0xAA, 0xB2, 0xB3, 0xB5, 0xB9, 0xBA, 0xBC, 0xBD, 0xBE]
      \<or> (0xC0 \<le> k \<and> k \<le> 0xFF \<and> k \<noteq> 0xD7 \<and> k \<noteq> 0xF7))"

definition is_w :: "char \<Rightarrow> bool" where
  "is_w c = (is_word c \<or> is_alnum_latin1 c)"

text \<open>\<^verbatim>\<open>\s\<close>\<close>

definition is_space :: "char \<Rightarrow> bool" where
  "is_space c =
     (c \<in> set [CHR '' '', CHR 0x09, CHR 0x0A, CHR 0x0B, CHR 0x0C, CHR 0x0D,
                CHR 0x1C, CHR 0x1D, CHR 0x1E, CHR 0x1F, CHR 0x85, CHR 0xA0])"

text \<open>A rule that is a fixed text, such as \<^verbatim>\<open>t_PLUSPLUS = r'\+\+'\<close>.\<close>

definition re_lit :: "string \<Rightarrow> string \<Rightarrow> nat option" where
  "re_lit l s = (if l \<noteq> [] \<and> take (length l) s = l then Some (length l) else None)"

text \<open>\<^verbatim>\<open>[a-zA-Z_][a-zA-Z0-9_]*\<close>\<close>

definition re_IDENTIFIER :: "string \<Rightarrow> nat option" where
  "re_IDENTIFIER s =
     (case s of
        [] \<Rightarrow> None
      | c # cs \<Rightarrow> if is_letter c then Some (Suc (length (takeWhile is_word cs))) else None)"

text \<open>\<^verbatim>\<open>\d+(\.\d+)?\<close>\<close>

definition re_NUMBER :: "string \<Rightarrow> nat option" where
  "re_NUMBER s =
     (let n = length (takeWhile is_digit s) in
      if n = 0 then None
      else
        (case drop n s of
           c # d # _ \<Rightarrow>
             if c = CHR ''.'' \<and> is_digit d
             then Some (n + 1 + length (takeWhile is_digit (drop (n + 1) s)))
             else Some n
         | _ \<Rightarrow> Some n))"

text \<open>\<^verbatim>\<open>\n+\<close>\<close>

definition re_newline :: "string \<Rightarrow> nat option" where
  "re_newline s =
     (let n = length (takeWhile (\<lambda>c. c = CHR 0x0A) s) in if n = 0 then None else Some n)"

text \<open>\<^verbatim>\<open>\#include\s*<\w+>\<close>\<close>

definition re_INCLUDE :: "string \<Rightarrow> nat option" where
  "re_INCLUDE s =
     (if take 8 s = ''#include'' then
        (let ws = length (takeWhile is_space (drop 8 s)) in
         case drop (8 + ws) s of
           [] \<Rightarrow> None
         | c # r \<Rightarrow>
             (let w = length (takeWhile is_w r) in
              if c = CHR ''<'' \<and> 0 < w \<and> take 1 (drop w r) = ''>''
              then Some (8 + ws + 1 + w + 1) else None))
      else None)"

text \<open>
  \<^verbatim>\<open>//.*|/\*.*?\*/\<close>: a dot matches no newline, so a block comment ends on the line
  where it starts or it is no comment. \<^verbatim>\<open>block_end\<close> is the length of the shortest
  \<^verbatim>\<open>.*?\<close> that is followed by \<^verbatim>\<open>*/\<close>.
\<close>

fun block_end :: "string \<Rightarrow> nat option" where
  "block_end [] = None"
| "block_end (c # cs) =
     (if take 2 (c # cs) = ''*/'' then Some 0
      else if c = CHR 0x0A then None
      else map_option Suc (block_end cs))"

definition re_COMMENT :: "string \<Rightarrow> nat option" where
  "re_COMMENT s =
     (if take 2 s = ''//'' then Some (2 + length (takeWhile (\<lambda>c. c \<noteq> CHR 0x0A) (drop 2 s)))
      else if take 2 s = ''/*'' then map_option (\<lambda>k. 2 + k + 2) (block_end (drop 2 s))
      else None)"

text \<open>\<^verbatim>\<open>"[^"]*"\<close>\<close>

definition re_STRING :: "string \<Rightarrow> nat option" where
  "re_STRING s =
     (case s of
        [] \<Rightarrow> None
      | c # cs \<Rightarrow>
          (let n = length (takeWhile (\<lambda>d. d \<noteq> CHR 0x22) cs) in
           if c = CHR 0x22 \<and> n < length cs then Some (n + 2) else None))"

subsection \<open>The master expression\<close>

text \<open>
  PLY joins the rules into one alternation: the rules given as functions first, in
  the order of their definition (\<^verbatim>\<open>t_IDENTIFIER\<close>, \<^verbatim>\<open>t_NUMBER\<close>, \<^verbatim>\<open>t_newline\<close>), then
  the rules given as strings, by decreasing length of the expression's text (equal
  lengths keep the order of definition). Python takes the first alternative that
  matches, so \<^verbatim>\<open>++\<close> is tried before \<^verbatim>\<open>+\<close>, \<^verbatim>\<open>->\<close> before \<^verbatim>\<open>-\<close> and a comment
  before \<^verbatim>\<open>/\<close>.
\<close>

definition lexre :: "(string \<times> (string \<Rightarrow> nat option)) list" where
  "lexre =
     [(''IDENTIFIER'', re_IDENTIFIER), (''NUMBER'', re_NUMBER), (''newline'', re_newline),
      (''INCLUDE'', re_INCLUDE), (''ignore_COMMENT'', re_COMMENT), (''STRING'', re_STRING),
      (''OR'', re_lit ''||''), (''PLUSPLUS'', re_lit ''++''),
      (''LPAREN'', re_lit ''(''), (''RPAREN'', re_lit '')''), (''LBRACE'', re_lit ''{''),
      (''RBRACE'', re_lit ''}''), (''PLUS'', re_lit ''+''), (''MULTIPLY'', re_lit ''*''),
      (''AND'', re_lit ''&&''), (''ARROW'', re_lit ''->''), (''LBRACKET'', re_lit ''[''),
      (''RBRACKET'', re_lit '']''),
      (''SEMICOLON'', re_lit '';''), (''COMMA'', re_lit '',''), (''EQUALS'', re_lit ''=''),
      (''MINUS'', re_lit ''-''), (''DIVIDE'', re_lit ''/''), (''LT'', re_lit ''<''),
      (''GT'', re_lit ''>''), (''NOT'', re_lit ''!''), (''COLON'', re_lit '':'')]"

fun first_match :: "(string \<times> (string \<Rightarrow> nat option)) list \<Rightarrow> string \<Rightarrow> (string \<times> nat) option" where
  "first_match [] s = None"
| "first_match ((name, re) # rules) s =
     (case re s of Some n \<Rightarrow> Some (name, n) | None \<Rightarrow> first_match rules s)"

subsection \<open>The rules' actions\<close>

text \<open>The dictionary \<^verbatim>\<open>reserved\<close>.\<close>

definition reserved :: "string \<rightharpoonup> string" where
  "reserved = map_of
     [(''int'', ''INT''), (''float'', ''FLOAT''), (''class'', ''CLASS''), (''if'', ''IF''),
      (''else'', ''ELSE''), (''for'', ''FOR''), (''while'', ''WHILE''),
      (''return'', ''RETURN''), (''cout'', ''COUT''), (''endl'', ''ENDL''),
      (''include'', ''INCLUDE''), (''string'', ''STRING_H''), (''iostream'', ''IOSTREAM''),
      (''namespace'', ''NAMESPACE''), (''std'', ''STD'')]"

text \<open>
  \<^verbatim>\<open>int(text)\<close> on a string of decimal digits. The interpreter converts at most
  \<^verbatim>\<open>sys.int_info.default_max_str_digits\<close> digits, 4300 of them, leading zeros counted,
  and raises \<^verbatim>\<open>ValueError\<close> on a longer text.
\<close>

definition digit_value :: "char \<Rightarrow> nat" where
  "digit_value c = of_char c - 48"

definition max_str_digits :: nat where
  "max_str_digits = 4300"

definition py_int :: "string \<Rightarrow> exn + nat" where
  "py_int s =
     (if max_str_digits < length s then Inl ValueError
      else Inr (foldl (\<lambda>a c. 10 * a + digit_value c) 0 s))"

text \<open>
  \<^verbatim>\<open>t_IDENTIFIER\<close> looks the text up in \<^verbatim>\<open>reserved\<close>; \<^verbatim>\<open>t_NUMBER\<close> replaces the text by
  a float when it has a point and by an integer otherwise; a rule given as a string
  keeps the text. \<^verbatim>\<open>float_str\<close> stands for Python's \<^verbatim>\<open>str(float(text))\<close>, which
  depends on binary floating point: it is a parameter of the model. The result is the
  token, or the exception that \<^verbatim>\<open>int\<close> raises.
\<close>

definition make_token :: "(string \<Rightarrow> string) \<Rightarrow> string \<Rightarrow> string \<Rightarrow> nat \<Rightarrow> exn + token" where
  "make_token float_str name text ln =
     (if name = ''IDENTIFIER'' then
        Inr \<lparr>toktype = (case reserved text of Some k \<Rightarrow> k | None \<Rightarrow> ''IDENTIFIER''),
             tokvalue = VStr text, toklineno = ln\<rparr>
      else if name = ''NUMBER'' then
        (if CHR ''.'' \<in> set text
         then Inr \<lparr>toktype = ''NUMBER'', tokvalue = VFloat (float_str text), toklineno = ln\<rparr>
         else
           (case py_int text of
              Inl e \<Rightarrow> Inl e
            | Inr k \<Rightarrow> Inr \<lparr>toktype = ''NUMBER'', tokvalue = VInt k, toklineno = ln\<rparr>))
      else Inr \<lparr>toktype = name, tokvalue = VStr text, toklineno = ln\<rparr>)"

text \<open>\<^verbatim>\<open>t_error\<close>: the message names the first character that no rule matches.\<close>

definition t_error :: "string \<Rightarrow> nat \<Rightarrow> exn" where
  "t_error rest ln =
     SyntaxError (''Illegal character '' @ [CHR 0x27] @ take 1 rest @ [CHR 0x27]
                  @ '' at line '' @ str_nat ln)"

definition t_ignore :: string where
  "t_ignore = [CHR '' '', CHR 0x09]"

lemma re_lit_pos: "re_lit l s = Some n \<Longrightarrow> 0 < n"
  by (auto simp: re_lit_def split: if_splits)

lemma re_IDENTIFIER_pos: "re_IDENTIFIER s = Some n \<Longrightarrow> 0 < n"
  by (auto simp: re_IDENTIFIER_def split: list.splits if_splits)

lemma re_NUMBER_pos: "re_NUMBER s = Some n \<Longrightarrow> 0 < n"
  by (auto simp: re_NUMBER_def Let_def split: list.splits if_splits)

lemma re_newline_pos: "re_newline s = Some n \<Longrightarrow> 0 < n"
  by (auto simp: re_newline_def Let_def split: if_splits)

lemma re_INCLUDE_pos: "re_INCLUDE s = Some n \<Longrightarrow> 0 < n"
  by (auto simp: re_INCLUDE_def Let_def split: list.splits if_splits)

lemma re_COMMENT_pos: "re_COMMENT s = Some n \<Longrightarrow> 0 < n"
  by (auto simp: re_COMMENT_def split: if_splits)

lemma re_STRING_pos: "re_STRING s = Some n \<Longrightarrow> 0 < n"
  by (auto simp: re_STRING_def Let_def split: list.splits if_splits)

lemma first_match_lexre_pos: "first_match lexre s = Some (name, n) \<Longrightarrow> 0 < n"
  by (auto simp: lexre_def split: option.splits
      dest: re_lit_pos re_IDENTIFIER_pos re_NUMBER_pos re_newline_pos re_INCLUDE_pos
        re_COMMENT_pos re_STRING_pos)

subsection \<open>Scanning\<close>

text \<open>
  \<^verbatim>\<open>lexer.token()\<close>: characters of \<^verbatim>\<open>t_ignore\<close> are skipped, then the master
  expression is matched. The rule \<^verbatim>\<open>t_newline\<close> adds the length of its match to the
  line counter and returns nothing, a comment is dropped, any other rule returns a
  token, unless its action raises. Where nothing matches \<^verbatim>\<open>t_error\<close> raises. At the end of the text the result
  is \<^verbatim>\<open>None\<close>. The scanner's state is returned in every case: it is an object that
  outlives the call, an exception included.
\<close>

function lex_token :: "(string \<Rightarrow> string) \<Rightarrow> lexer \<Rightarrow> (exn + token option) \<times> lexer" where
  "lex_token float_str lx =
     (case lexdata lx of
        [] \<Rightarrow> (Inr None, lx)
      | c # cs \<Rightarrow>
          if c \<in> set t_ignore then lex_token float_str (lx\<lparr>lexdata := cs\<rparr>)
          else
            (case first_match lexre (c # cs) of
               None \<Rightarrow> (Inl (t_error (c # cs) (lineno lx)), lx)
             | Some (name, n) \<Rightarrow>
                 if name = ''newline''
                 then lex_token float_str (lx\<lparr>lexdata := drop n (c # cs), lineno := lineno lx + n\<rparr>)
                 else if name = ''ignore_COMMENT''
                 then lex_token float_str (lx\<lparr>lexdata := drop n (c # cs)\<rparr>)
                 else
                   (case make_token float_str name (take n (c # cs)) (lineno lx) of
                      Inl e \<Rightarrow> (Inl e, lx\<lparr>lexdata := drop n (c # cs)\<rparr>)
                    | Inr t \<Rightarrow> (Inr (Some t), lx\<lparr>lexdata := drop n (c # cs)\<rparr>))))"
  by pat_completeness auto
termination
  by (relation "measure (\<lambda>(f, lx). length (lexdata lx))")
    (auto dest: first_match_lexre_pos)

declare lex_token.simps [simp del]

lemma lex_token_shorter:
  "lex_token fs lx = (Inr (Some t), lx') \<Longrightarrow> length (lexdata lx') < length (lexdata lx)"
proof (induction fs lx rule: lex_token.induct)
  case (1 fs lx)
  show ?case
  proof (cases "lexdata lx")
    case Nil
    with "1.prems" show ?thesis by (simp add: lex_token.simps [of fs lx])
  next
    case (Cons c cs)
    show ?thesis
    proof (cases "c \<in> set t_ignore")
      case True
      with Cons "1.prems" have "lex_token fs (lx\<lparr>lexdata := cs\<rparr>) = (Inr (Some t), lx')"
        by (simp add: lex_token.simps [of fs lx])
      from "1.IH"(1) [OF Cons True this] Cons show ?thesis by simp
    next
      case False
      show ?thesis
      proof (cases "first_match lexre (c # cs)")
        case None
        with Cons False "1.prems" show ?thesis by (simp add: lex_token.simps [of fs lx])
      next
        case (Some m)
        obtain name n where m: "m = (name, n)" by (cases m)
        from Some m have pos: "0 < n" by (auto dest: first_match_lexre_pos)
        consider "name = ''newline''" | "name \<noteq> ''newline''" "name = ''ignore_COMMENT''"
          | "name \<noteq> ''newline''" "name \<noteq> ''ignore_COMMENT''" by blast
        then show ?thesis
        proof cases
          case 1
          with Cons False Some m "1.prems"
          have "lex_token fs (lx\<lparr>lexdata := drop n (c # cs), lineno := lineno lx + n\<rparr>)
                = (Inr (Some t), lx')"
            by (simp add: lex_token.simps [of fs lx])
          from "1.IH"(2) [OF Cons False Some m [symmetric] 1 this] Cons pos
          show ?thesis by simp
        next
          case 2
          with Cons False Some m "1.prems"
          have "lex_token fs (lx\<lparr>lexdata := drop n (c # cs)\<rparr>) = (Inr (Some t), lx')"
            by (simp add: lex_token.simps [of fs lx])
          from "1.IH"(3) [OF Cons False Some m [symmetric] 2(1) 2(2) this] Cons pos
          show ?thesis by simp
        next
          case 3
          with Cons False Some m "1.prems" pos show ?thesis
            by (auto simp: lex_token.simps [of fs lx] split: sum.splits)
        qed
      qed
    qed
  qed
qed

text \<open>\<^verbatim>\<open>lexer.input(s)\<close> sets the text and the position. It leaves \<^verbatim>\<open>lineno\<close> alone.\<close>

definition lexer_input :: "lexer \<Rightarrow> string \<Rightarrow> lexer" where
  "lexer_input lx s = lx\<lparr>lexdata := s\<rparr>"

text \<open>
  All the tokens the scanner can give from its state on, with the exception that
  ends them if one does, and the scanner's state at that point.
\<close>

function tokens_all :: "(string \<Rightarrow> string) \<Rightarrow> lexer \<Rightarrow> token list \<times> exn option \<times> lexer" where
  "tokens_all float_str lx =
     (case lex_token float_str lx of
        (Inl e, lx') \<Rightarrow> ([], Some e, lx')
      | (Inr None, lx') \<Rightarrow> ([], None, lx')
      | (Inr (Some t), lx') \<Rightarrow>
          (case tokens_all float_str lx' of (ts, r) \<Rightarrow> (t # ts, r)))"
  by pat_completeness auto
termination
  by (relation "measure (\<lambda>(f, lx). length (lexdata lx))")
    (auto dest: lex_token_shorter [OF sym])

declare tokens_all.simps [simp del]

section \<open>The parser\<close>

text \<open>
  \<^verbatim>\<open>parser = yacc.yacc()\<close> builds an LALR(1) shift-reduce parser from the grammar in the
  docstrings of the \<^verbatim>\<open>p_\<close> functions and from the table \<^verbatim>\<open>precedence\<close>. The parser
  reads one token at a time, keeps a stack of grammar symbols with their values, and
  calls the \<^verbatim>\<open>p_\<close> function of a production when it reduces by it. The \<^verbatim>\<open>p_\<close>
  functions come first here, each with the stack entries \<^verbatim>\<open>p[i]\<close> it uses as its
  arguments and one definition for each length of \<^verbatim>\<open>p\<close> it tells apart.
\<close>

subsection \<open>The actions of the productions\<close>

definition p_program_includes :: "node \<Rightarrow> node \<Rightarrow> node" where
  "p_program_includes p1 p2 = Node ''program'' [p2] VNone"

definition p_program_statements :: "node \<Rightarrow> node" where
  "p_program_statements p1 = Node ''program'' [p1] VNone"

definition p_includes_first :: "node \<Rightarrow> node" where
  "p_includes_first p1 = Node ''includes'' [p1] VNone"

definition p_includes_next :: "node \<Rightarrow> node \<Rightarrow> node" where
  "p_includes_next p1 p2 = Node (ntype p1) (children p1 @ [p2]) (nvalue p1)"

definition p_statements_first :: "node \<Rightarrow> node" where
  "p_statements_first p1 = Node ''statements'' [p1] VNone"

definition p_statements_next :: "node \<Rightarrow> node \<Rightarrow> node" where
  "p_statements_next p1 p2 = Node (ntype p1) (children p1 @ [p2]) (nvalue p1)"

definition p_include :: "pyval \<Rightarrow> node" where
  "p_include p1 = Node ''include'' [] p1"

definition p_declaration_init :: "pyval \<Rightarrow> node \<Rightarrow> node" where
  "p_declaration_init p2 p4 = Node ''declaration'' [p4] p2"

definition p_declaration_plain :: "pyval \<Rightarrow> node" where
  "p_declaration_plain p2 = Node ''declaration'' [] p2"

definition p_assignment :: "pyval \<Rightarrow> node \<Rightarrow> node" where
  "p_assignment p1 p3 = Node ''assignment'' [p3] p1"

definition p_increment :: "pyval \<Rightarrow> node" where
  "p_increment p1 = Node ''increment'' [] p1"

definition p_if_stmt :: "node \<Rightarrow> node \<Rightarrow> node" where
  "p_if_stmt p3 p6 = Node ''if'' ([p3, p6] @ []) VNone"

definition p_if_stmt_else :: "node \<Rightarrow> node \<Rightarrow> node \<Rightarrow> node" where
  "p_if_stmt_else p3 p6 p10 = Node ''if'' ([p3, p6] @ [p10]) VNone"

definition p_for_stmt :: "pyval \<Rightarrow> node \<Rightarrow> node \<Rightarrow> node \<Rightarrow> node" where
  "p_for_stmt p4 p6 p8 p14 = Node ''for'' [p6, p8, p14] p4"

definition p_while_stmt :: "node \<Rightarrow> node \<Rightarrow> node" where
  "p_while_stmt p3 p6 = Node ''while'' [p3, p6] VNone"

definition p_function_def :: "pyval \<Rightarrow> node \<Rightarrow> node \<Rightarrow> node" where
  "p_function_def p2 p4 p7 = Node ''function'' [p4, p7] p2"

definition p_params_first :: "node \<Rightarrow> node" where
  "p_params_first p1 = Node ''params'' [p1] VNone"

definition p_params_next :: "node \<Rightarrow> node \<Rightarrow> node" where
  "p_params_next p1 p3 = Node ''params'' (children p1 @ [p3]) VNone"

definition p_params_empty :: node where
  "p_params_empty = Node ''params'' [] VNone"

definition p_param :: "pyval \<Rightarrow> node" where
  "p_param p2 = Node ''param'' [] p2"

definition p_class_def :: "pyval \<Rightarrow> node \<Rightarrow> node" where
  "p_class_def p2 p4 = Node ''class'' [p4] p2"

definition p_declarations_first :: "node \<Rightarrow> node" where
  "p_declarations_first p1 = Node ''declarations'' [p1] VNone"

definition p_declarations_next :: "node \<Rightarrow> node \<Rightarrow> node" where
  "p_declarations_next p1 p2 = Node (ntype p1) (children p1 @ [p2]) (nvalue p1)"

definition p_output_plain :: "node \<Rightarrow> node" where
  "p_output_plain p4 = Node ''output'' [p4] (VStr [])"

definition p_output_endl :: "node \<Rightarrow> node" where
  "p_output_endl p4 = Node ''output'' [p4] (VStr ''endl'')"

definition p_return_stmt :: "node \<Rightarrow> node" where
  "p_return_stmt p2 = Node ''return'' [p2] VNone"

definition p_expression_binop :: "node \<Rightarrow> pyval \<Rightarrow> node \<Rightarrow> node" where
  "p_expression_binop p1 p2 p3 = Node ''binop'' [p1, p3] p2"

definition p_expression_unop :: "pyval \<Rightarrow> node \<Rightarrow> node" where
  "p_expression_unop p1 p2 = Node ''unop'' [p2] p1"

definition p_expression_literal :: "pyval \<Rightarrow> node" where
  "p_expression_literal p1 = Node ''literal'' [] p1"

subsection \<open>Precedence\<close>

text \<open>
  The table \<^verbatim>\<open>precedence\<close>. PLY numbers its rows from 1; a terminal that is in no row
  has \<^verbatim>\<open>('right', 0)\<close>, and so has a production whose last terminal is in no row.
  Where the automaton could both shift the terminal \<^verbatim>\<open>a\<close> and reduce by a
  production whose last terminal is \<^verbatim>\<open>r\<close>, PLY keeps the reduction when the level of
  \<^verbatim>\<open>a\<close> is below that of \<^verbatim>\<open>r\<close>, or equal to it with \<^verbatim>\<open>r\<close> in a \<^verbatim>\<open>'left'\<close> row, and
  the shift otherwise.
\<close>

definition precedence :: "(string \<times> string list) list" where
  "precedence =
     [(''left'', [''PLUS'', ''MINUS'']), (''left'', [''MULTIPLY'', ''DIVIDE'']),
      (''right'', [''PLUSPLUS''])]"

fun prec_lookup :: "(string \<times> string list) list \<Rightarrow> nat \<Rightarrow> string \<Rightarrow> string \<times> nat" where
  "prec_lookup [] level a = (''right'', 0)"
| "prec_lookup ((assoc, terms) # rows) level a =
     (if a \<in> set terms then (assoc, level) else prec_lookup rows (level + 1) a)"

definition prec_of :: "string \<Rightarrow> string \<times> nat" where
  "prec_of a = prec_lookup precedence 1 a"

definition reduce_wins :: "string \<Rightarrow> string \<Rightarrow> bool" where
  "reduce_wins r a =
     (snd (prec_of a) < snd (prec_of r)
      \<or> (snd (prec_of a) = snd (prec_of r) \<and> fst (prec_of r) = ''left''))"

subsection \<open>Expressions\<close>

text \<open>
  A parse of the tokens read so far fails at a token (\<^verbatim>\<open>p_error\<close> is called with it)
  or because no token is left.
\<close>

datatype perr = SynErr token | AtEnd

text \<open>
  The part of the parser's stack that belongs to an unfinished expression: for
  \<^verbatim>\<open>expression OP\<close> the left operand and the operator's token, for \<^verbatim>\<open>NOT\<close> its token.
\<close>

datatype pend = PBin node token | PNot token

definition binary_ops :: "string list" where
  "binary_ops = [''PLUS'', ''MINUS'', ''MULTIPLY'', ''DIVIDE'', ''LT'', ''GT'', ''AND'', ''OR'']"

definition operand_types :: "string list" where
  "operand_types = [''NUMBER'', ''IDENTIFIER'', ''STRING'']"

text \<open>
  \<^verbatim>\<open>expr_operand\<close> is the parser where an expression has to start, \<^verbatim>\<open>expr_operator\<close>
  the parser after a complete expression \<^verbatim>\<open>e\<close>. With \<^verbatim>\<open>expression OP e\<close> on the stack
  and a binary operator next, \<^verbatim>\<open>reduce_wins\<close> decides; after \<^verbatim>\<open>NOT e\<close> the production
  \<^verbatim>\<open>NOT expression\<close> has level 0 and is \<^verbatim>\<open>'right'\<close>, so a binary operator is always
  shifted. On any other token the parser reduces what is pending and leaves the
  token to what comes after the expression.

  The flag \<^verbatim>\<open>out\<close> is set for the expression of \<^verbatim>\<open>COUT LT LT expression\<close>. There the
  state reached by shifting \<^verbatim>\<open>LT\<close> after the whole expression holds both
  \<^verbatim>\<open>expression LT . expression\<close> and \<^verbatim>\<open>output : COUT LT LT expression LT . LT ENDL SEMICOLON\<close>:
  a second \<^verbatim>\<open>LT\<close> continues the output statement, an operand continues the comparison.
  The result is the expression, whether \<^verbatim>\<open>LT LT\<close> was read after it, and the tokens left.
\<close>

fun expr_operand :: "bool \<Rightarrow> pend list \<Rightarrow> token list \<Rightarrow> perr + (node \<times> bool \<times> token list)"
  and expr_operator :: "bool \<Rightarrow> pend list \<Rightarrow> node \<Rightarrow> token list \<Rightarrow> perr + (node \<times> bool \<times> token list)"
  where
  "expr_operand out stk [] = Inl AtEnd"
| "expr_operand out stk (t # ts) =
     (if toktype t = ''NOT'' then expr_operand out (PNot t # stk) ts
      else if toktype t \<in> set operand_types
      then expr_operator out stk (p_expression_literal (tokvalue t)) ts
      else Inl (SynErr t))"
| "expr_operator out [] e [] = Inr (e, False, [])"
| "expr_operator out [] e (t # ts) =
     (if toktype t \<in> set binary_ops then
        (case ts of
           t' # ts' \<Rightarrow>
             if out \<and> toktype t = ''LT'' \<and> toktype t' = ''LT'' then Inr (e, True, ts')
             else expr_operand out [PBin e t] ts
         | [] \<Rightarrow> expr_operand out [PBin e t] ts)
      else Inr (e, False, t # ts))"
| "expr_operator out (PBin l op # stk) e [] =
     expr_operator out stk (p_expression_binop l (tokvalue op) e) []"
| "expr_operator out (PBin l op # stk) e (t # ts) =
     (if toktype t \<in> set binary_ops \<and> \<not> reduce_wins (toktype op) (toktype t)
      then expr_operand out (PBin e t # PBin l op # stk) ts
      else expr_operator out stk (p_expression_binop l (tokvalue op) e) (t # ts))"
| "expr_operator out (PNot op # stk) e [] =
     expr_operator out stk (p_expression_unop (tokvalue op) e) []"
| "expr_operator out (PNot op # stk) e (t # ts) =
     (if toktype t \<in> set binary_ops
      then expr_operand out (PBin e t # PNot op # stk) ts
      else expr_operator out stk (p_expression_unop (tokvalue op) e) (t # ts))"

definition expression :: "token list \<Rightarrow> perr + (node \<times> token list)" where
  "expression toks =
     (case expr_operand False [] toks of Inl e \<Rightarrow> Inl e | Inr (e, _, rest) \<Rightarrow> Inr (e, rest))"

lemma expr_operand_shorter:
  "expr_operand out stk toks = Inr (e', b, rest) \<Longrightarrow> length rest < length toks"
  and expr_operator_shorter:
  "expr_operator out stk e toks = Inr (e', b, rest) \<Longrightarrow> length rest \<le> length toks"
  by (induction out stk toks and out stk e toks arbitrary: e' b rest and e' b rest
      rule: expr_operand_expr_operator.induct)
    (auto split: if_splits list.splits simp: le_Suc_eq less_Suc_eq_le | fastforce)+

lemma expression_shorter: "expression toks = Inr (e, rest) \<Longrightarrow> length rest < length toks"
  by (auto simp: expression_def split: sum.splits dest: expr_operand_shorter)

subsection \<open>Statements without a block\<close>

text \<open>
  \<^verbatim>\<open>expect1 k\<close> shifts one token of type \<^verbatim>\<open>k\<close> and gives its value; \<^verbatim>\<open>skip ks\<close> shifts
  tokens of the types \<^verbatim>\<open>ks\<close> in turn. \<^verbatim>\<open>and_then\<close> passes a result on and an error up.
\<close>

definition and_then :: "perr + 'a \<Rightarrow> ('a \<Rightarrow> perr + 'b) \<Rightarrow> perr + 'b" where
  "and_then m f = (case m of Inl e \<Rightarrow> Inl e | Inr x \<Rightarrow> f x)"

fun expect1 :: "string \<Rightarrow> token list \<Rightarrow> perr + (pyval \<times> token list)" where
  "expect1 k [] = Inl AtEnd"
| "expect1 k (t # ts) = (if toktype t = k then Inr (tokvalue t, ts) else Inl (SynErr t))"

fun skip :: "string list \<Rightarrow> token list \<Rightarrow> perr + token list" where
  "skip [] toks = Inr toks"
| "skip (k # ks) [] = Inl AtEnd"
| "skip (k # ks) (t # ts) = (if toktype t = k then skip ks ts else Inl (SynErr t))"

lemma expect1_shorter: "expect1 k toks = Inr (v, rest) \<Longrightarrow> length rest < length toks"
  by (cases toks) (auto split: if_splits)

lemma skip_shorter: "skip ks toks = Inr rest \<Longrightarrow> length rest \<le> length toks"
  by (induction ks toks rule: skip.induct) (auto split: if_splits)

lemma expect1_Inr:
  "expect1 k toks = Inr (v, rest) \<longleftrightarrow> (\<exists>t. toks = t # rest \<and> toktype t = k \<and> tokvalue t = v)"
  by (cases toks) auto

lemma skip1_Inr: "skip [k] toks = Inr rest \<longleftrightarrow> (\<exists>t. toks = t # rest \<and> toktype t = k)"
  by (cases toks) auto

text \<open>
  \<^verbatim>\<open>params : param | params COMMA param | empty\<close> with \<^verbatim>\<open>param : INT IDENTIFIER\<close>. The
  list may start with the empty production, so \<^verbatim>\<open>(, int a)\<close> is accepted. The
  closing parenthesis is left to the caller.
\<close>

fun params_more :: "node \<Rightarrow> token list \<Rightarrow> perr + (node \<times> token list)" where
  "params_more ps [] = Inl AtEnd"
| "params_more ps [t] =
     (if toktype t = ''COMMA'' then Inl AtEnd
      else if toktype t = ''RPAREN'' then Inr (ps, [t])
      else Inl (SynErr t))"
| "params_more ps [t, t1] =
     (if toktype t = ''COMMA'' then (if toktype t1 = ''INT'' then Inl AtEnd else Inl (SynErr t1))
      else if toktype t = ''RPAREN'' then Inr (ps, [t, t1])
      else Inl (SynErr t))"
| "params_more ps (t # t1 # t2 # ts) =
     (if toktype t = ''COMMA'' then
        (if toktype t1 = ''INT'' then
           (if toktype t2 = ''IDENTIFIER''
            then params_more (p_params_next ps (p_param (tokvalue t2))) ts
            else Inl (SynErr t2))
         else Inl (SynErr t1))
      else if toktype t = ''RPAREN'' then Inr (ps, t # t1 # t2 # ts)
      else Inl (SynErr t))"

definition params :: "token list \<Rightarrow> perr + (node \<times> token list)" where
  "params toks =
     (case toks of
        [] \<Rightarrow> Inl AtEnd
      | t # ts \<Rightarrow>
          if toktype t = ''INT'' then
            and_then (expect1 ''IDENTIFIER'' ts)
              (\<lambda>(name, rest). params_more (p_params_first (p_param name)) rest)
          else if toktype t = ''COMMA'' \<or> toktype t = ''RPAREN''
          then params_more p_params_empty (t # ts)
          else Inl (SynErr t))"

lemma params_more_shorter: "params_more ps toks = Inr (ps', rest) \<Longrightarrow> length rest \<le> length toks"
  by (induction ps toks rule: params_more.induct) (auto split: if_splits)

lemma params_shorter: "params toks = Inr (ps, rest) \<Longrightarrow> length rest \<le> length toks"
  by (auto simp: params_def and_then_def split: list.splits if_splits sum.splits
      dest!: params_more_shorter expect1_shorter)

text \<open>
  \<^verbatim>\<open>declarations\<close>, the body of a class. Besides the productions with \<^verbatim>\<open>declaration\<close>
  the grammar has \<^verbatim>\<open>declarations : INT IDENTIFIER SEMICOLON\<close> and
  \<^verbatim>\<open>declarations : declarations INT IDENTIFIER SEMICOLON\<close>; after these three tokens the
  automaton could reduce by either of them or by \<^verbatim>\<open>declaration : INT IDENTIFIER SEMICOLON\<close>,
  and PLY settles such a conflict for the production that comes first in the file, which
  is the one of \<^verbatim>\<open>p_declaration\<close>. The closing brace is left to the caller.
\<close>

definition add_declaration :: "node option \<Rightarrow> node \<Rightarrow> node" where
  "add_declaration acc d =
     (case acc of None \<Rightarrow> p_declarations_first d | Some ds \<Rightarrow> p_declarations_next ds d)"

function declarations :: "node option \<Rightarrow> token list \<Rightarrow> perr + (node \<times> token list)" where
  "declarations acc [] = Inl AtEnd"
| "declarations acc (t # ts) =
     (if toktype t = ''INT'' then
        (case expect1 ''IDENTIFIER'' ts of
           Inl e \<Rightarrow> Inl e
         | Inr (name, r1) \<Rightarrow>
             (case r1 of
                [] \<Rightarrow> Inl AtEnd
              | t1 # r2 \<Rightarrow>
                  if toktype t1 = ''SEMICOLON''
                  then declarations (Some (add_declaration acc (p_declaration_plain name))) r2
                  else if toktype t1 = ''EQUALS'' then
                    (case expression r2 of
                       Inl e \<Rightarrow> Inl e
                     | Inr (e, r3) \<Rightarrow>
                         (case skip [''SEMICOLON''] r3 of
                            Inl e \<Rightarrow> Inl e
                          | Inr r4 \<Rightarrow>
                              declarations (Some (add_declaration acc (p_declaration_init name e))) r4))
                  else Inl (SynErr t1)))
      else if toktype t = ''FLOAT'' then
        (case expect1 ''IDENTIFIER'' ts of
           Inl e \<Rightarrow> Inl e
         | Inr (name, r1) \<Rightarrow>
             (case skip [''EQUALS''] r1 of
                Inl e \<Rightarrow> Inl e
              | Inr r2 \<Rightarrow>
                  (case expression r2 of
                     Inl e \<Rightarrow> Inl e
                   | Inr (e, r3) \<Rightarrow>
                       (case skip [''SEMICOLON''] r3 of
                          Inl e \<Rightarrow> Inl e
                        | Inr r4 \<Rightarrow>
                            declarations (Some (add_declaration acc (p_declaration_init name e))) r4))))
      else if toktype t = ''RBRACE'' then
        (case acc of Some ds \<Rightarrow> Inr (ds, t # ts) | None \<Rightarrow> Inl (SynErr t))
      else Inl (SynErr t))"
  by pat_completeness auto
termination
  by (relation "measure (\<lambda>(acc, toks). length toks)")
    (auto simp: expect1_Inr skip1_Inr eq_commute [of "Inr _"] dest!: expression_shorter)

lemma declarations_shorter:
  "declarations acc toks = Inr (ds, rest) \<Longrightarrow> length rest \<le> length toks"
proof (induction "length toks" arbitrary: acc toks ds rest rule: less_induct)
  case less
  show ?case
  proof (cases toks)
    case Nil
    with less.prems show ?thesis by simp
  next
    case (Cons t ts)
    from less.prems Cons show ?thesis
      by (auto simp: expect1_Inr skip1_Inr split: if_splits sum.splits list.splits option.splits
          dest!: expression_shorter less.hyps [rotated])
  qed
qed

text \<open>
  A statement up to its end, or up to the brace that opens its first block. What is
  kept of a statement whose block is open is a \<^verbatim>\<open>frame\<close>: the values of the symbols
  that the parser's stack holds below the block.
\<close>

datatype frame =
  FIf node | FElse node node | FWhile node | FFor pyval node node | FFunc pyval node

datatype head = Stmt node | Open frame

text \<open>
  After \<^verbatim>\<open>INT IDENTIFIER\<close> at the start of a statement: a declaration with or without
  an initializer, or a function definition up to the brace of its body.
\<close>

definition int_identifier :: "pyval \<Rightarrow> token list \<Rightarrow> perr + (head \<times> token list)" where
  "int_identifier name toks =
     (case toks of
        [] \<Rightarrow> Inl AtEnd
      | t # ts \<Rightarrow>
          if toktype t = ''EQUALS'' then
            and_then (expression ts) (\<lambda>(e, r1).
            and_then (skip [''SEMICOLON''] r1) (\<lambda>r2.
              Inr (Stmt (p_declaration_init name e), r2)))
          else if toktype t = ''SEMICOLON''
          then Inr (Stmt (p_declaration_plain name), ts)
          else if toktype t = ''LPAREN'' then
            and_then (params ts) (\<lambda>(ps, r1).
            and_then (skip [''RPAREN'', ''LBRACE''] r1) (\<lambda>r2.
              Inr (Open (FFunc name ps), r2)))
          else Inl (SynErr t))"

definition stmt_head :: "token list \<Rightarrow> perr + (head \<times> token list)" where
  "stmt_head toks =
     (case toks of
        [] \<Rightarrow> Inl AtEnd
      | t # ts \<Rightarrow>
          if toktype t = ''INT'' then
            and_then (expect1 ''IDENTIFIER'' ts) (\<lambda>(name, r1). int_identifier name r1)
          else if toktype t = ''FLOAT'' then
            and_then (expect1 ''IDENTIFIER'' ts) (\<lambda>(name, r1).
            and_then (skip [''EQUALS''] r1) (\<lambda>r2.
            and_then (expression r2) (\<lambda>(e, r3).
            and_then (skip [''SEMICOLON''] r3) (\<lambda>r4.
              Inr (Stmt (p_declaration_init name e), r4)))))
          else if toktype t = ''IDENTIFIER'' then
            (case ts of
               [] \<Rightarrow> Inl AtEnd
             | t1 # r1 \<Rightarrow>
                 if toktype t1 = ''EQUALS'' then
                   and_then (expression r1) (\<lambda>(e, r2).
                   and_then (skip [''SEMICOLON''] r2) (\<lambda>r3.
                     Inr (Stmt (p_assignment (tokvalue t) e), r3)))
                 else if toktype t1 = ''PLUSPLUS'' then
                   and_then (skip [''SEMICOLON''] r1) (\<lambda>r2.
                     Inr (Stmt (p_increment (tokvalue t)), r2))
                 else Inl (SynErr t1))
          else if toktype t = ''IF'' then
            and_then (skip [''LPAREN''] ts) (\<lambda>r1.
            and_then (expression r1) (\<lambda>(e, r2).
            and_then (skip [''RPAREN'', ''LBRACE''] r2) (\<lambda>r3.
              Inr (Open (FIf e), r3))))
          else if toktype t = ''FOR'' then
            and_then (skip [''LPAREN'', ''INT''] ts) (\<lambda>r1.
            and_then (expect1 ''IDENTIFIER'' r1) (\<lambda>(name, r2).
            and_then (skip [''EQUALS''] r2) (\<lambda>r3.
            and_then (expression r3) (\<lambda>(e1, r4).
            and_then (skip [''SEMICOLON''] r4) (\<lambda>r5.
            and_then (expression r5) (\<lambda>(e2, r6).
            and_then (skip [''SEMICOLON'', ''IDENTIFIER'', ''PLUSPLUS'', ''RPAREN'', ''LBRACE''] r6)
              (\<lambda>r7. Inr (Open (FFor name e1 e2), r7))))))))
          else if toktype t = ''WHILE'' then
            and_then (skip [''LPAREN''] ts) (\<lambda>r1.
            and_then (expression r1) (\<lambda>(e, r2).
            and_then (skip [''RPAREN'', ''LBRACE''] r2) (\<lambda>r3.
              Inr (Open (FWhile e), r3))))
          else if toktype t = ''CLASS'' then
            and_then (expect1 ''IDENTIFIER'' ts) (\<lambda>(name, r1).
            and_then (skip [''LBRACE''] r1) (\<lambda>r2.
            and_then (declarations None r2) (\<lambda>(ds, r3).
            and_then (skip [''RBRACE'', ''SEMICOLON''] r3) (\<lambda>r4.
              Inr (Stmt (p_class_def name ds), r4)))))
          else if toktype t = ''COUT'' then
            and_then (skip [''LT'', ''LT''] ts) (\<lambda>r1.
            and_then (expr_operand True [] r1) (\<lambda>(e, endl, r2).
              if endl then
                and_then (skip [''ENDL'', ''SEMICOLON''] r2) (\<lambda>r3.
                  Inr (Stmt (p_output_endl e), r3))
              else
                and_then (skip [''SEMICOLON''] r2) (\<lambda>r3.
                  Inr (Stmt (p_output_plain e), r3))))
          else if toktype t = ''RETURN'' then
            and_then (expression ts) (\<lambda>(e, r1).
            and_then (skip [''SEMICOLON''] r1) (\<lambda>r2.
              Inr (Stmt (p_return_stmt e), r2)))
          else Inl (SynErr t))"

lemma and_then_Inr: "and_then m f = Inr y \<longleftrightarrow> (\<exists>x. m = Inr x \<and> f x = Inr y)"
  by (cases m) (auto simp: and_then_def)

lemma int_identifier_shorter:
  "int_identifier name toks = Inr (h, rest) \<Longrightarrow> length rest < length toks"
  unfolding int_identifier_def
  by (cases toks)
    (auto simp: and_then_Inr skip1_Inr split: if_splits
      dest!: expression_shorter skip_shorter params_shorter)

lemma stmt_head_shorter: "stmt_head toks = Inr (h, rest) \<Longrightarrow> length rest < length toks"
  unfolding stmt_head_def
  by (cases toks)
    (auto simp: and_then_Inr expect1_Inr skip1_Inr split: if_splits list.splits
      dest!: expression_shorter skip_shorter params_shorter declarations_shorter
        expr_operand_shorter int_identifier_shorter)

subsection \<open>Statements and blocks\<close>

text \<open>
  \<^verbatim>\<open>run frames acc toks\<close> is the parser inside a list of statements: \<^verbatim>\<open>acc\<close> is the
  \<^verbatim>\<open>statements\<close> node of the list so far (none before its first statement), \<^verbatim>\<open>frames\<close>
  are the open blocks around it, each with the \<^verbatim>\<open>statements\<close> node of the list it
  stands in. A closing brace reduces the innermost open statement, after a look at
  the next token for \<^verbatim>\<open>ELSE\<close> when it ends the first block of an \<^verbatim>\<open>if\<close>. A block
  cannot be empty. The program ends where no token is left and no block is open.
\<close>

definition add_statement :: "node option \<Rightarrow> node \<Rightarrow> node" where
  "add_statement acc s =
     (case acc of None \<Rightarrow> p_statements_first s | Some ss \<Rightarrow> p_statements_next ss s)"

fun close_block :: "frame \<Rightarrow> node \<Rightarrow> node" where
  "close_block (FIf c) body = p_if_stmt c body"
| "close_block (FElse c thn) body = p_if_stmt_else c thn body"
| "close_block (FWhile c) body = p_while_stmt c body"
| "close_block (FFor name e1 e2) body = p_for_stmt name e1 e2 body"
| "close_block (FFunc name ps) body = p_function_def name ps body"

function run :: "(frame \<times> node option) list \<Rightarrow> node option \<Rightarrow> token list \<Rightarrow> perr + node" where
  "run frames acc [] =
     (case acc of Some stmts \<Rightarrow> (if frames = [] then Inr stmts else Inl AtEnd) | None \<Rightarrow> Inl AtEnd)"
| "run frames acc (t # ts) =
     (if toktype t = ''RBRACE'' then
        (case frames of
           [] \<Rightarrow> Inl (SynErr t)
         | (f, outer) # frames' \<Rightarrow>
             (case acc of
                None \<Rightarrow> Inl (SynErr t)
              | Some body \<Rightarrow>
                  (case f of
                     FIf c \<Rightarrow>
                       (case ts of
                          [] \<Rightarrow> run frames' (Some (add_statement outer (close_block f body))) ts
                        | t1 # ts1 \<Rightarrow>
                            if toktype t1 = ''ELSE'' then
                              (case skip [''LBRACE''] ts1 of
                                 Inl e \<Rightarrow> Inl e
                               | Inr ts2 \<Rightarrow> run ((FElse c body, outer) # frames') None ts2)
                            else run frames' (Some (add_statement outer (close_block f body))) ts)
                   | _ \<Rightarrow> run frames' (Some (add_statement outer (close_block f body))) ts)))
      else
        (case stmt_head (t # ts) of
           Inl e \<Rightarrow> Inl e
         | Inr (Stmt s, rest) \<Rightarrow> run frames (Some (add_statement acc s)) rest
         | Inr (Open f, rest) \<Rightarrow> run ((f, acc) # frames) None rest))"
  by pat_completeness auto
termination
  by (relation "measure (\<lambda>(frames, acc, toks). length toks)")
    (auto simp: skip1_Inr eq_commute [of "Inr _"] dest!: stmt_head_shorter)

subsection \<open>The program\<close>

text \<open>
  \<^verbatim>\<open>program : includes statements | statements\<close>. The \<^verbatim>\<open>includes\<close> node is built and
  \<^verbatim>\<open>p_program\<close> leaves it out of the program node.
\<close>

fun includes_more :: "node \<Rightarrow> token list \<Rightarrow> node \<times> token list" where
  "includes_more incs [] = (incs, [])"
| "includes_more incs (t # ts) =
     (if toktype t = ''INCLUDE''
      then includes_more (p_includes_next incs (p_include (tokvalue t))) ts
      else (incs, t # ts))"

definition yacc_program :: "token list \<Rightarrow> perr + node" where
  "yacc_program toks =
     (case toks of
        [] \<Rightarrow> Inl AtEnd
      | t # ts \<Rightarrow>
          if toktype t = ''INCLUDE'' then
            (case includes_more (p_includes_first (p_include (tokvalue t))) ts of
               (incs, rest) \<Rightarrow>
                 and_then (run [] None rest) (\<lambda>stmts. Inr (p_program_includes incs stmts)))
          else and_then (run [] None toks) (\<lambda>stmts. Inr (p_program_statements stmts)))"

text \<open>
  \<^verbatim>\<open>p_error\<close>: called with the token the parser cannot use, or with \<^verbatim>\<open>None\<close> at the end
  of the input.
\<close>

definition p_error :: "token option \<Rightarrow> exn" where
  "p_error p =
     (case p of
        Some t \<Rightarrow>
          SyntaxError (''Syntax error at '' @ [CHR 0x27] @ py_str (tokvalue t) @ [CHR 0x27]
                       @ '' on line '' @ str_nat (toklineno t))
      | None \<Rightarrow> SyntaxError ''Unexpected end of input'')"

text \<open>
  \<^verbatim>\<open>parser.parse(cpp_code, lexer=lexer)\<close>. The parser asks the scanner for a token when
  it needs one, so what happens first decides the outcome: \<^verbatim>\<open>p_error\<close> at a token the
  parser cannot use, \<^verbatim>\<open>t_error\<close> where the scanner is asked for the token after those
  the parser has used, or the end of the input. The result comes with the value of
  the scanner's line counter after the call: after \<^verbatim>\<open>p_error\<close> at a token the scanner
  has not read past it.
\<close>

definition yacc_parse :: "(string \<Rightarrow> string) \<Rightarrow> lexer \<Rightarrow> (exn + node) \<times> nat" where
  "yacc_parse float_str lx =
     (case tokens_all float_str lx of
        (toks, failure, lx') \<Rightarrow>
          (case yacc_program toks of
             Inl (SynErr t) \<Rightarrow> (Inl (p_error (Some t)), toklineno t)
           | Inl AtEnd \<Rightarrow>
               (case failure of
                  Some e \<Rightarrow> (Inl e, lineno lx')
                | None \<Rightarrow> (Inl (p_error None), lineno lx'))
           | Inr ast \<Rightarrow>
               (case failure of
                  Some e \<Rightarrow> (Inl e, lineno lx')
                | None \<Rightarrow> (Inr ast, lineno lx'))))"

section \<open>The entry point\<close>

text \<open>
  \<^verbatim>\<open>transpile(cpp_code)\<close>. The scanner is the module's one object: \<^verbatim>\<open>lexer.input\<close> gives
  it the new text and position, and its line counter is what the previous call left.
  So the line counter is the state a call starts from and the state it leaves:
  \<^verbatim>\<open>transpile float_str ln cpp_code\<close> is the call's outcome and the new line counter.
  \<^verbatim>\<open>Inr\<close> is a returned string, \<^verbatim>\<open>Inl\<close> an exception that \<^verbatim>\<open>except SyntaxError\<close> does not
  catch. The first call starts from line 1.
\<close>

definition transpile :: "(string \<Rightarrow> string) \<Rightarrow> nat \<Rightarrow> string \<Rightarrow> (exn + string) \<times> nat" where
  "transpile float_str ln cpp_code =
     (case yacc_parse float_str (lexer_input \<lparr>lexdata = [], lineno = ln\<rparr> cpp_code) of
        (Inl (SyntaxError msg), ln') \<Rightarrow> (Inr msg, ln')
      | (Inl e, ln') \<Rightarrow> (Inl e, ln')
      | (Inr ast, ln') \<Rightarrow>
          (case generate_code ast 0 of
             Inl (SyntaxError msg) \<Rightarrow> (Inr msg, ln')
           | Inl e \<Rightarrow> (Inl e, ln')
           | Inr text \<Rightarrow> (Inr text, ln')))"

section \<open>How a call of the scanner ends\<close>












section \<open>Declarations and classes in the generated text\<close>

lemma class_fields_map:
  "class_fields ind ds =
     concat (map (\<lambda>d. ind @ ''        self.'' @ py_str (nvalue d) @ '' = 0\<newline>'') ds)"
  by (induction ds) simp_all

text \<open>
  The declarations of the grammar. A declaration node with an initializer generates
  the line that binds the declared name to the translated initializer, one without an
  initializer the line that binds it to \<^verbatim>\<open>0\<close>; the line starts with the indentation
  of its level and ends with a newline. The parser builds these nodes from
  \<^verbatim>\<open>INT IDENTIFIER SEMICOLON\<close> and from \<^verbatim>\<open>INT\<close> or \<^verbatim>\<open>FLOAT\<close>,
  \<^verbatim>\<open>IDENTIFIER EQUALS expression SEMICOLON\<close>. The text for \<^verbatim>\<open>int x = 5;\<close> is \<^verbatim>\<open>x = 5\<close>
  with no indentation and a newline.
\<close>

theorem declaration_binding:
  "(generate_code e 0 = Inr a \<longrightarrow>
      generate_code (p_declaration_init name e) indent
        = Inr (indent_str indent @ py_str name @ '' = '' @ a @ ''\<newline>''))
   \<and> generate_code (p_declaration_plain name) indent
        = Inr (indent_str indent @ py_str name @ '' = 0\<newline>'')
   \<and> (toktype t0 = ''INT'' \<and> toktype t1 = ''IDENTIFIER'' \<and> toktype t2 = ''SEMICOLON'' \<longrightarrow>
        stmt_head (t0 # t1 # t2 # rest) = Inr (Stmt (p_declaration_plain (tokvalue t1)), rest))
   \<and> ((toktype t0 = ''INT'' \<or> toktype t0 = ''FLOAT'') \<and> toktype t1 = ''IDENTIFIER''
        \<and> toktype t2 = ''EQUALS'' \<and> expression ts = Inr (e, t3 # rest)
        \<and> toktype t3 = ''SEMICOLON'' \<longrightarrow>
        stmt_head (t0 # t1 # t2 # ts) = Inr (Stmt (p_declaration_init (tokvalue t1) e), rest))
   \<and> transpile float_str 1 ''int x = 5;'' = (Inr ''x = 5\<newline>'', 1)
   \<and> transpile float_str 1 ''int x;'' = (Inr ''x = 0\<newline>'', 1)"
proof (intro conjI impI)
  assume "generate_code e 0 = Inr a"
  then show "generate_code (p_declaration_init name e) indent
        = Inr (indent_str indent @ py_str name @ '' = '' @ a @ ''\<newline>'')"
    by (simp add: p_declaration_init_def)
next
  show "generate_code (p_declaration_plain name) indent
        = Inr (indent_str indent @ py_str name @ '' = 0\<newline>'')"
    by (simp add: p_declaration_plain_def)
next
  assume "toktype t0 = ''INT'' \<and> toktype t1 = ''IDENTIFIER'' \<and> toktype t2 = ''SEMICOLON''"
  then show "stmt_head (t0 # t1 # t2 # rest) = Inr (Stmt (p_declaration_plain (tokvalue t1)), rest)"
    by (simp add: stmt_head_def and_then_def int_identifier_def)
next
  assume "(toktype t0 = ''INT'' \<or> toktype t0 = ''FLOAT'') \<and> toktype t1 = ''IDENTIFIER''
        \<and> toktype t2 = ''EQUALS'' \<and> expression ts = Inr (e, t3 # rest)
        \<and> toktype t3 = ''SEMICOLON''"
  then show "stmt_head (t0 # t1 # t2 # ts) = Inr (Stmt (p_declaration_init (tokvalue t1) e), rest)"
    by (auto simp: stmt_head_def and_then_def int_identifier_def)
next
  show "transpile float_str 1 ''int x = 5;'' = (Inr ''x = 5\<newline>'', 1)"
    by code_simp
next
  show "transpile float_str 1 ''int x;'' = (Inr ''x = 0\<newline>'', 1)"
    by code_simp
qed

text \<open>
  An instance: the declaration \<^verbatim>\<open>float r = 2;\<close> at indentation level 1, from its
  tokens to its line.
\<close>

theorem declaration_binding_witness:
  "generate_code (p_expression_literal (VInt 2)) 0 = Inr ''2''
   \<and> toktype \<lparr>toktype = ''INT'', tokvalue = VStr ''int'', toklineno = 1\<rparr> = ''INT''
   \<and> expression [\<lparr>toktype = ''NUMBER'', tokvalue = VInt 2, toklineno = 1\<rparr>,
                  \<lparr>toktype = ''SEMICOLON'', tokvalue = VStr '';'', toklineno = 1\<rparr>]
       = Inr (p_expression_literal (VInt 2),
              [\<lparr>toktype = ''SEMICOLON'', tokvalue = VStr '';'', toklineno = 1\<rparr>])
   \<and> stmt_head [\<lparr>toktype = ''FLOAT'', tokvalue = VStr ''float'', toklineno = 1\<rparr>,
                 \<lparr>toktype = ''IDENTIFIER'', tokvalue = VStr ''r'', toklineno = 1\<rparr>,
                 \<lparr>toktype = ''EQUALS'', tokvalue = VStr ''='', toklineno = 1\<rparr>,
                 \<lparr>toktype = ''NUMBER'', tokvalue = VInt 2, toklineno = 1\<rparr>,
                 \<lparr>toktype = ''SEMICOLON'', tokvalue = VStr '';'', toklineno = 1\<rparr>]
       = Inr (Stmt (p_declaration_init (VStr ''r'') (p_expression_literal (VInt 2))), [])
   \<and> stmt_head [\<lparr>toktype = ''INT'', tokvalue = VStr ''int'', toklineno = 1\<rparr>,
                 \<lparr>toktype = ''IDENTIFIER'', tokvalue = VStr ''r'', toklineno = 1\<rparr>,
                 \<lparr>toktype = ''SEMICOLON'', tokvalue = VStr '';'', toklineno = 1\<rparr>]
       = Inr (Stmt (p_declaration_plain (VStr ''r'')), [])
   \<and> generate_code (p_declaration_init (VStr ''r'') (p_expression_literal (VInt 2))) 1
       = Inr ''    r = 2\<newline>''"
proof -
  let ?int = "\<lparr>toktype = ''INT'', tokvalue = VStr ''int'', toklineno = 1\<rparr>"
  let ?float = "\<lparr>toktype = ''FLOAT'', tokvalue = VStr ''float'', toklineno = 1\<rparr>"
  let ?r = "\<lparr>toktype = ''IDENTIFIER'', tokvalue = VStr ''r'', toklineno = 1\<rparr>"
  let ?eq = "\<lparr>toktype = ''EQUALS'', tokvalue = VStr ''='', toklineno = 1\<rparr>"
  let ?two = "\<lparr>toktype = ''NUMBER'', tokvalue = VInt 2, toklineno = 1\<rparr>"
  let ?semi = "\<lparr>toktype = ''SEMICOLON'', tokvalue = VStr '';'', toklineno = 1\<rparr>"
  have g: "generate_code (p_expression_literal (VInt 2)) 0 = Inr ''2''"
    by code_simp
  have x: "expression [?two, ?semi] = Inr (p_expression_literal (VInt 2), [?semi])"
    by (simp add: expression_def operand_types_def binary_ops_def)
  have i: "indent_str 1 = ''    ''"
    by (simp add: indent_str_def)
  from declaration_binding
    [where e = "p_expression_literal (VInt 2)" and a = "''2''" and name = "VStr ''r''"
      and indent = 1 and ?t0.0 = ?int and ?t1.0 = ?r and ?t2.0 = ?semi and rest = "[]"
      and float_str = id]
    declaration_binding
    [where e = "p_expression_literal (VInt 2)" and a = "''2''" and name = "VStr ''r''"
      and indent = 1 and ?t0.0 = ?float and ?t1.0 = ?r and ?t2.0 = ?eq and rest = "[]"
      and ts = "[?two, ?semi]" and ?t3.0 = ?semi and float_str = id] g x i
  show ?thesis by simp
qed

text \<open>
  Claim C6. The claim is about every scalar declaration, so also about a float
  declaration without an initializer, which should bind the name to zero. The rule
  \<^verbatim>\<open>p_declaration\<close> has \<^verbatim>\<open>INT IDENTIFIER SEMICOLON\<close> and no \<^verbatim>\<open>FLOAT IDENTIFIER SEMICOLON\<close>:
  for \<^verbatim>\<open>float x;\<close> the parser stops at the semicolon and \<^verbatim>\<open>transpile\<close> returns the
  diagnostic of a syntax error, where \<^verbatim>\<open>int x;\<close> gives \<^verbatim>\<open>x = 0\<close>.
\<close>

theorem float_declaration_rejected:
  "transpile float_str 1 ''float x;''
     = (Inr (''Syntax error at '' @ [CHR 0x27] @ '';'' @ [CHR 0x27] @ '' on line 1''), 1)
   \<and> transpile float_str 1 ''int x;'' = (Inr ''x = 0\<newline>'', 1)"
  by (intro conjI; code_simp)

text \<open>
  The class node. Its text is the line that opens the class, the line that opens
  \<^verbatim>\<open>__init__(self)\<close>, and one line \<^verbatim>\<open>self.<field> = 0\<close> for each declaration of the
  class body, in their order, and nothing else. A class with the two integer fields
  \<^verbatim>\<open>x\<close> and \<^verbatim>\<open>y\<close> gives exactly these four lines.
\<close>

theorem class_initializer:
  "generate_code (p_class_def name decls) indent
     = Inr (indent_str indent @ ''class '' @ py_str name @ '':\<newline>''
            @ indent_str indent @ ''    def __init__(self):\<newline>''
            @ concat (map (\<lambda>d. indent_str indent @ ''        self.'' @ py_str (nvalue d)
                                @ '' = 0\<newline>'')
                (children decls)))
   \<and> transpile float_str 1 ''class Point { int x; int y; };''
     = (Inr (''class Point:\<newline>''
             @ ''    def __init__(self):\<newline>''
             @ ''        self.x = 0\<newline>''
             @ ''        self.y = 0\<newline>''), 1)"
proof
  show "generate_code (p_class_def name decls) indent
     = Inr (indent_str indent @ ''class '' @ py_str name @ '':\<newline>''
            @ indent_str indent @ ''    def __init__(self):\<newline>''
            @ concat (map (\<lambda>d. indent_str indent @ ''        self.'' @ py_str (nvalue d)
                                @ '' = 0\<newline>'')
                (children decls)))"
    by (simp add: p_class_def_def class_fields_map)
next
  show "transpile float_str 1 ''class Point { int x; int y; };''
     = (Inr (''class Point:\<newline>''
             @ ''    def __init__(self):\<newline>''
             @ ''        self.x = 0\<newline>''
             @ ''        self.y = 0\<newline>''), 1)"
    by code_simp
qed

text \<open>
  Claim C8. The claim is about every class definition: the text should set every
  declared field to zero. The class body takes the declarations of \<^verbatim>\<open>p_declaration\<close>,
  and \<^verbatim>\<open>p_declarations\<close> adds \<^verbatim>\<open>INT IDENTIFIER SEMICOLON\<close> once more and no
  \<^verbatim>\<open>FLOAT IDENTIFIER SEMICOLON\<close>. So a class whose fields are floats without an
  initializer is a syntax error at the first field's semicolon and no class is
  generated. A body of an integer field, an integer field with an initializer and a
  float field with an initializer gives the three fields, each set to \<^verbatim>\<open>0\<close>.
\<close>

theorem class_float_field_rejected:
  "transpile float_str 1 ''class P { float x; float y; };''
     = (Inr (''Syntax error at '' @ [CHR 0x27] @ '';'' @ [CHR 0x27] @ '' on line 1''), 1)
   \<and> transpile float_str 1 ''class A { int z; int x = 5; float y = 1; };''
     = (Inr (''class A:\<newline>''
             @ ''    def __init__(self):\<newline>''
             @ ''        self.z = 0\<newline>''
             @ ''        self.x = 0\<newline>''
             @ ''        self.y = 0\<newline>''), 1)"
  by (intro conjI; code_simp)

section \<open>The counted loop\<close>

text \<open>
  Claim C1. For \<^verbatim>\<open>for (int i = 0; i < 5; i++) { cout << i << endl; }\<close> the claim asks
  for a loop over \<^verbatim>\<open>i\<close> from \<^verbatim>\<open>0\<close> to \<^verbatim>\<open>5\<close>. \<^verbatim>\<open>p_for_stmt\<close> keeps the whole guard as the
  second child and \<^verbatim>\<open>generate_code\<close> prints that child as the upper bound, so the
  text is \<^verbatim>\<open>for i in range(0, i < 5):\<close>.
\<close>

theorem for_range_upper_bound_is_guard:
  "transpile float_str 1 ''for (int i = 0; i < 5; i++) { cout << i << endl; }''
     = (Inr (''for i in range(0, i < 5):\<newline>''
             @ ''    print(i, end='' @ [CHR 0x27, CHR 0x5C, CHR ''n'', CHR 0x27] @ '')\<newline>''), 1)"
  by code_simp

section \<open>The line counter between calls\<close>

text \<open>
  Claim C2. Two calls on the same input should return the same string, and a
  diagnostic's line should not depend on earlier calls. The input of a newline and
  \<^verbatim>\<open>@\<close> is reported at line 2 by a first call and at line 3 by the call after it; after
  a call on \<^verbatim>\<open>int x;\<close> and a newline, a call on \<^verbatim>\<open>@\<close> alone reports line 2.
\<close>

theorem line_counter_survives_call:
  "transpile float_str 1 [CHR 0x0A, CHR ''@'']
     = (Inr (''Illegal character '' @ [CHR 0x27] @ ''@'' @ [CHR 0x27] @ '' at line 2''), 2)
   \<and> transpile float_str 2 [CHR 0x0A, CHR ''@'']
     = (Inr (''Illegal character '' @ [CHR 0x27] @ ''@'' @ [CHR 0x27] @ '' at line 3''), 3)
   \<and> transpile float_str 1 (''int x;'' @ [CHR 0x0A]) = (Inr ''x = 0\<newline>'', 2)
   \<and> transpile float_str 2 ''@''
     = (Inr (''Illegal character '' @ [CHR 0x27] @ ''@'' @ [CHR 0x27] @ '' at line 2''), 2)"
  by (intro conjI; code_simp)

section \<open>Exceptions at the boundary of the entry point\<close>

text \<open>
  The text \<^verbatim>\<open>x = \<close>, then \<open>n\<close> times the digit \<^verbatim>\<open>1\<close>, then a semicolon, with \<open>n\<close> above
  the interpreter's bound: the scanner gives the identifier and the equals sign, and
  \<^verbatim>\<open>int\<close> raises in \<^verbatim>\<open>t_NUMBER\<close> when the parser asks for the third token.
\<close>

lemma takeWhile_replicate_digit:
  "is_digit c \<Longrightarrow> \<not> is_digit d \<Longrightarrow> takeWhile is_digit (replicate n c @ d # r) = replicate n c"
  by (induction n) simp_all

lemma re_NUMBER_replicate:
  "is_digit c \<Longrightarrow> \<not> is_digit d \<Longrightarrow> d \<noteq> CHR ''.'' \<Longrightarrow> 0 < n \<Longrightarrow>
     re_NUMBER (replicate n c @ d # r) = Some n"
  by (simp add: re_NUMBER_def takeWhile_replicate_digit Let_def split: list.splits)

lemma lex_long_literal:
  assumes n: "max_str_digits < n"
  shows "lex_token fs \<lparr>lexdata = replicate n (CHR ''1'') @ '';'', lineno = ln\<rparr>
           = (Inl ValueError, \<lparr>lexdata = '';'', lineno = ln\<rparr>)"
proof -
  from n obtain m where m: "n = Suc m" by (cases n) simp_all
  have d: "is_digit (CHR ''1'')" "\<not> is_digit (CHR '';'')" by (simp_all add: is_digit_def)
  have r: "re_NUMBER (replicate n (CHR ''1'') @ '';'') = Some n"
    using re_NUMBER_replicate [OF d, of n "[]"] m by simp
  have f: "first_match lexre (replicate n (CHR ''1'') @ '';'') = Some (''NUMBER'', n)"
    using r by (simp add: lexre_def re_IDENTIFIER_def is_letter_def m)
  have p: "py_int (replicate n (CHR ''1'')) = Inl ValueError"
    using n by (simp add: py_int_def)
  have k: "make_token fs ''NUMBER'' (replicate n (CHR ''1'')) ln = Inl ValueError"
    using p by (simp add: make_token_def)
  show ?thesis
    using f k by (subst lex_token.simps) (simp add: m t_ignore_def)
qed

lemma tokens_long_literal:
  assumes n: "max_str_digits < n"
  shows "tokens_all fs \<lparr>lexdata = CHR ''x'' # CHR '' '' # CHR ''='' # CHR '' '' # replicate n (CHR ''1'') @ '';'', lineno = ln\<rparr>
           = ([\<lparr>toktype = ''IDENTIFIER'', tokvalue = VStr ''x'', toklineno = ln\<rparr>,
               \<lparr>toktype = ''EQUALS'', tokvalue = VStr ''='', toklineno = ln\<rparr>],
              Some ValueError, \<lparr>lexdata = '';'', lineno = ln\<rparr>)"
proof -
  let ?lit = "replicate n (CHR ''1'') @ '';''"
  have 1: "lex_token fs \<lparr>lexdata = CHR ''x'' # CHR '' '' # CHR ''='' # CHR '' '' # ?lit, lineno = ln\<rparr>
      = (Inr (Some \<lparr>toktype = ''IDENTIFIER'', tokvalue = VStr ''x'', toklineno = ln\<rparr>),
         \<lparr>lexdata = CHR '' '' # CHR ''='' # CHR '' '' # ?lit, lineno = ln\<rparr>)"
    by (subst lex_token.simps)
      (simp add: t_ignore_def lexre_def re_IDENTIFIER_def is_letter_def is_word_def is_digit_def
        make_token_def reserved_def)
  have 2: "lex_token fs \<lparr>lexdata = CHR '' '' # CHR ''='' # CHR '' '' # ?lit, lineno = ln\<rparr>
      = (Inr (Some \<lparr>toktype = ''EQUALS'', tokvalue = VStr ''='', toklineno = ln\<rparr>),
         \<lparr>lexdata = CHR '' '' # ?lit, lineno = ln\<rparr>)"
    apply (subst lex_token.simps)
    apply (simp add: t_ignore_def)
    apply (subst lex_token.simps)
    apply (simp add: t_ignore_def lexre_def re_IDENTIFIER_def is_letter_def re_NUMBER_def
        is_digit_def re_newline_def re_INCLUDE_def re_COMMENT_def re_STRING_def re_lit_def
        make_token_def)
    done
  have 3: "lex_token fs \<lparr>lexdata = CHR '' '' # ?lit, lineno = ln\<rparr>
      = (Inl ValueError, \<lparr>lexdata = '';'', lineno = ln\<rparr>)"
    by (subst lex_token.simps) (simp add: t_ignore_def lex_long_literal [OF n])
  show ?thesis
    by (simp add: 1 2 3
        tokens_all.simps [of fs "\<lparr>lexdata = CHR ''x'' # CHR '' '' # CHR ''='' # CHR '' '' # ?lit, lineno = ln\<rparr>"]
        tokens_all.simps [of fs "\<lparr>lexdata = CHR '' '' # CHR ''='' # CHR '' '' # ?lit, lineno = ln\<rparr>"]
        tokens_all.simps [of fs "\<lparr>lexdata = CHR '' '' # ?lit, lineno = ln\<rparr>"])
qed

lemma transpile_long_literal:
  assumes n: "max_str_digits < n"
  shows "transpile fs ln (''x = '' @ replicate n (CHR ''1'') @ '';'') = (Inl ValueError, ln)"
proof -
  have "yacc_program [\<lparr>toktype = ''IDENTIFIER'', tokvalue = VStr ''x'', toklineno = ln\<rparr>,
               \<lparr>toktype = ''EQUALS'', tokvalue = VStr ''='', toklineno = ln\<rparr>] = Inl AtEnd"
    by (simp add: yacc_program_def stmt_head_def expression_def and_then_def)
  then show ?thesis
    using tokens_long_literal [OF n, of fs ln]
    by (simp add: transpile_def yacc_parse_def lexer_input_def)
qed

text \<open>
  Claim C3. \<^verbatim>\<open>transpile\<close> should raise nothing, whatever the input. Its \<^verbatim>\<open>except\<close>
  clause catches \<^verbatim>\<open>SyntaxError\<close> and nothing else, and \<^verbatim>\<open>t_NUMBER\<close> calls \<^verbatim>\<open>int\<close> on the
  digits it matched: on an assignment of an integer literal of 4301 digits the call
  raises \<^verbatim>\<open>ValueError\<close> to its caller and returns no string.
\<close>

theorem long_integer_literal_raises:
  "transpile float_str 1 (''x = '' @ replicate 4301 (CHR ''1'') @ '';'') = (Inl ValueError, 1)"
  by (rule transpile_long_literal) (simp add: max_str_digits_def)

section \<open>Initializers of class fields\<close>





section \<open>Characters that start no token\<close>




section \<open>The output statement\<close>

text \<open>
  An expression that parses where no output statement is open parses the same way
  after \<^verbatim>\<open>COUT LT LT\<close>: the two differ only where \<^verbatim>\<open>LT LT\<close> follows a whole expression,
  and there the expression alone does not parse.
\<close>

lemma out_flag:
  "expr_operand out stk ts = Inr (e, b, r) \<Longrightarrow> \<not> out \<Longrightarrow> \<not> b"
  and "expr_operator out stk e0 ts = Inr (e, b, r) \<Longrightarrow> \<not> out \<Longrightarrow> \<not> b"
  by (induction out stk ts and out stk e0 ts arbitrary: e b r and e b r
      rule: expr_operand_expr_operator.induct)
    (auto split: if_splits list.splits | fastforce)+

lemma out_agrees:
  "expr_operand out stk ts = Inr res \<Longrightarrow> \<not> out \<Longrightarrow> expr_operand True stk ts = Inr res"
  and "expr_operator out stk e0 ts = Inr res \<Longrightarrow> \<not> out \<Longrightarrow> expr_operator True stk e0 ts = Inr res"
  by (induction out stk ts and out stk e0 ts arbitrary: res and res
      rule: expr_operand_expr_operator.induct)
    (auto split: if_splits list.splits simp: operand_types_def | fastforce simp: operand_types_def)+

text \<open>
  The operators with a row in the table \<^verbatim>\<open>precedence\<close>: \<^verbatim>\<open>+\<close>, \<^verbatim>\<open>-\<close>, \<^verbatim>\<open>*\<close> and \<^verbatim>\<open>/\<close>.
  With one of them pending, the reduction wins against \<^verbatim>\<open>LT\<close>, so an expression of
  operands and these operators is whole when \<^verbatim>\<open>LT LT\<close> arrives.
\<close>

definition arithmetic :: "token \<Rightarrow> bool" where
  "arithmetic t = (toktype t \<in> set binary_ops \<and> 0 < snd (prec_of (toktype t)))"

fun arithmetic_pend :: "pend \<Rightarrow> bool" where
  "arithmetic_pend (PBin l op) = arithmetic op"
| "arithmetic_pend (PNot op) = False"

lemma arithmetic_not_LT: "arithmetic t \<Longrightarrow> toktype t \<noteq> ''LT''"
  by (auto simp: arithmetic_def prec_of_def precedence_def)

lemma arithmetic_not_NOT: "arithmetic t \<Longrightarrow> toktype t \<noteq> ''NOT''"
  by (auto simp: arithmetic_def binary_ops_def)

lemma arithmetic_reduce: "arithmetic op \<Longrightarrow> reduce_wins (toktype op) ''LT''"
  by (simp add: arithmetic_def reduce_wins_def prec_of_def [of "''LT''"] precedence_def)

lemma operand_not_NOT: "toktype t \<in> set operand_types \<Longrightarrow> toktype t \<noteq> ''NOT''"
  by (auto simp: operand_types_def)

lemma operand_not_binary: "toktype t \<in> set operand_types \<Longrightarrow> toktype t \<in> set binary_ops \<Longrightarrow> False"
  by (auto simp: operand_types_def binary_ops_def)

lemma LT_binary: "''LT'' \<in> set binary_ops"
  by (simp add: binary_ops_def)

lemma endl_after_arithmetic:
  "expr_operand out stk ts = Inr (e, b, []) \<Longrightarrow> \<not> out \<Longrightarrow>
     \<forall>t\<in>set ts. toktype t \<in> set operand_types \<or> arithmetic t \<Longrightarrow>
     list_all arithmetic_pend stk \<Longrightarrow> toktype l1 = ''LT'' \<Longrightarrow> toktype l2 = ''LT'' \<Longrightarrow>
     expr_operand True stk (ts @ l1 # l2 # r) = Inr (e, True, r)"
  and "expr_operator out stk e0 ts = Inr (e, b, []) \<Longrightarrow> \<not> out \<Longrightarrow>
     \<forall>t\<in>set ts. toktype t \<in> set operand_types \<or> arithmetic t \<Longrightarrow>
     list_all arithmetic_pend stk \<Longrightarrow> toktype l1 = ''LT'' \<Longrightarrow> toktype l2 = ''LT'' \<Longrightarrow>
     expr_operator True stk e0 (ts @ l1 # l2 # r) = Inr (e, True, r)"
proof (induction out stk ts and out stk e0 ts arbitrary: e b and e b
      rule: expr_operand_expr_operator.induct)
  case (1 out stk)
  then show ?case by simp
next
  case (2 out stk t ts)
  show ?case
  proof (cases "toktype t \<in> set operand_types")
    case True
    then have n: "toktype t \<noteq> ''NOT''" by (rule operand_not_NOT)
    from "2.prems"(1) True n
    have "expr_operator out stk (p_expression_literal (tokvalue t)) ts = Inr (e, b, [])"
      by simp
    from "2.IH"(2) [OF n True this "2.prems"(2) _ "2.prems"(4,5,6)] "2.prems"(3) True n
    show ?thesis by simp
  next
    case False
    with "2.prems"(3) have "arithmetic t" by simp
    then have "toktype t \<noteq> ''NOT''" by (rule arithmetic_not_NOT)
    with False "2.prems"(1) show ?thesis by simp
  qed
next
  case (3 out e)
  then show ?case by (simp add: LT_binary)
next
  case (4 out e0 t ts)
  from "4.prems"(1) have bin: "toktype t \<in> set binary_ops"
    by (auto split: if_splits)
  with "4.prems"(3) have ar: "arithmetic t"
    by (auto dest: operand_not_binary)
  then have nlt: "toktype t \<noteq> ''LT''" by (rule arithmetic_not_LT)
  show ?case
  proof (cases ts)
    case Nil
    with "4.prems"(1) bin show ?thesis by simp
  next
    case (Cons t' ts')
    have c: "\<not> (out \<and> toktype t = ''LT'' \<and> toktype t' = ''LT'')"
      using "4.prems"(2) by simp
    from "4.prems"(1) bin Cons c have "expr_operand out [PBin e0 t] ts = Inr (e, b, [])"
      by simp
    from "4.IH"(2) [OF bin Cons c this "4.prems"(2) _ _ "4.prems"(5,6)] "4.prems"(3) ar
    have "expr_operand True [PBin e0 t] (ts @ l1 # l2 # r) = Inr (e, True, r)"
      by simp
    with bin Cons nlt show ?thesis by simp
  qed
next
  case (5 out l op stk e0)
  from "5.prems"(4) have ar: "arithmetic op" and st: "list_all arithmetic_pend stk"
    by simp_all
  from "5.prems"(1) have "expr_operator out stk (p_expression_binop l (tokvalue op) e0) [] = Inr (e, b, [])"
    by simp
  from "5.IH" [OF this "5.prems"(2) _ st "5.prems"(5,6)]
  have "expr_operator True stk (p_expression_binop l (tokvalue op) e0) (l1 # l2 # r) = Inr (e, True, r)"
    by simp
  with arithmetic_reduce [OF ar] "5.prems"(5) show ?case by simp
next
  case (6 out l op stk e0 t ts)
  from "6.prems"(4) have ar: "arithmetic op" and st: "list_all arithmetic_pend stk"
    by simp_all
  have tl: "\<forall>t\<in>set ts. toktype t \<in> set operand_types \<or> arithmetic t"
    using "6.prems"(3) by simp
  show ?case
  proof (cases "toktype t \<in> set binary_ops \<and> \<not> reduce_wins (toktype op) (toktype t)")
    case True
    with "6.prems"(1) have "expr_operand out (PBin e0 t # PBin l op # stk) ts = Inr (e, b, [])"
      by simp
    moreover from True "6.prems"(3) have "arithmetic t" by (auto dest: operand_not_binary)
    ultimately have "expr_operand True (PBin e0 t # PBin l op # stk) (ts @ l1 # l2 # r) = Inr (e, True, r)"
      using "6.IH"(1) [OF True _ "6.prems"(2) tl _ "6.prems"(5,6)] ar st by simp
    with True show ?thesis by simp
  next
    case False
    with "6.prems"(1)
    have "expr_operator out stk (p_expression_binop l (tokvalue op) e0) (t # ts) = Inr (e, b, [])"
      by auto
    from "6.IH"(2) [OF False this "6.prems"(2,3) st "6.prems"(5,6)] False
    show ?thesis by auto
  qed
next
  case (7 out op stk e)
  then show ?case by simp
next
  case (8 out op stk e t ts)
  then show ?case by simp
qed


text \<open>
  Two chained expressions are no output statement of the grammar, with or without
  \<^verbatim>\<open>endl\<close>: the parser takes the second \<^verbatim>\<open><<\<close> for the start of \<^verbatim>\<open><< endl\<close>. After a
  comparison the first \<^verbatim>\<open><\<close> of \<^verbatim>\<open><< endl\<close> is shifted as one more comparison.
\<close>

theorem output_chain_rejected:
  "transpile id 1 ''cout << a << b;''
     = (Inr (''Syntax error at '' @ [CHR 0x27] @ ''b'' @ [CHR 0x27] @ '' on line 1''), 1)
   \<and> transpile id 1 ''cout << a << b << endl;''
     = (Inr (''Syntax error at '' @ [CHR 0x27] @ ''b'' @ [CHR 0x27] @ '' on line 1''), 1)
   \<and> transpile id 1 ''cout << a < b << endl;''
     = (Inr (''Syntax error at '' @ [CHR 0x27] @ ''<'' @ [CHR 0x27] @ '' on line 1''), 1)"
  by (intro conjI; code_simp)

text \<open>
  Claim C5. An output statement with one expression parses and builds an output node:
  \<^verbatim>\<open>COUT LT LT expression SEMICOLON\<close> for every expression, and
  \<^verbatim>\<open>COUT LT LT expression LT LT ENDL SEMICOLON\<close> for every expression of operands and the
  operators \<^verbatim>\<open>+\<close>, \<^verbatim>\<open>-\<close>, \<^verbatim>\<open>*\<close>, \<^verbatim>\<open>/\<close>. The texts for \<^verbatim>\<open>cout << a < b;\<close> and
  \<^verbatim>\<open>cout << a + b << endl;\<close> are the two calls of \<^verbatim>\<open>print\<close>.
\<close>

theorem output_one_expression:
  "(toktype c = ''COUT'' \<and> toktype l1 = ''LT'' \<and> toktype l2 = ''LT''
      \<and> expression ts = Inr (e, s # rest) \<and> toktype s = ''SEMICOLON'' \<longrightarrow>
      stmt_head (c # l1 # l2 # ts) = Inr (Stmt (p_output_plain e), rest))
   \<and> (toktype c = ''COUT'' \<and> toktype l1 = ''LT'' \<and> toktype l2 = ''LT''
      \<and> expression ts = Inr (e, [])
      \<and> (\<forall>t\<in>set ts. toktype t \<in> set operand_types \<or> arithmetic t)
      \<and> toktype l3 = ''LT'' \<and> toktype l4 = ''LT'' \<and> toktype en = ''ENDL''
      \<and> toktype s = ''SEMICOLON'' \<longrightarrow>
      stmt_head (c # l1 # l2 # ts @ l3 # l4 # en # s # rest) = Inr (Stmt (p_output_endl e), rest))
   \<and> ntype (p_output_plain e) = ''output'' \<and> ntype (p_output_endl e) = ''output''
   \<and> transpile float_str 1 ''cout << a < b;'' = (Inr (''print(a < b, end='' @ [CHR 0x27, CHR 0x27] @ '')\<newline>''), 1)
   \<and> transpile float_str 1 ''cout << a + b << endl;''
       = (Inr (''print(a + b, end='' @ [CHR 0x27, CHR 0x5C, CHR ''n'', CHR 0x27] @ '')\<newline>''), 1)"
proof (intro conjI impI)
  assume a: "toktype c = ''COUT'' \<and> toktype l1 = ''LT'' \<and> toktype l2 = ''LT''
      \<and> expression ts = Inr (e, s # rest) \<and> toktype s = ''SEMICOLON''"
  then obtain b where r: "expr_operand False [] ts = Inr (e, b, s # rest)"
    by (auto simp: expression_def split: sum.splits)
  from out_flag(1) [OF r] have "\<not> b" by simp
  with out_agrees(1) [OF r] have "expr_operand True [] ts = Inr (e, False, s # rest)"
    by simp
  with a show "stmt_head (c # l1 # l2 # ts) = Inr (Stmt (p_output_plain e), rest)"
    by (simp add: stmt_head_def and_then_def)
next
  assume a: "toktype c = ''COUT'' \<and> toktype l1 = ''LT'' \<and> toktype l2 = ''LT''
      \<and> expression ts = Inr (e, [])
      \<and> (\<forall>t\<in>set ts. toktype t \<in> set operand_types \<or> arithmetic t)
      \<and> toktype l3 = ''LT'' \<and> toktype l4 = ''LT'' \<and> toktype en = ''ENDL''
      \<and> toktype s = ''SEMICOLON''"
  then obtain b where r: "expr_operand False [] ts = Inr (e, b, [])"
    by (auto simp: expression_def split: sum.splits)
  from a have ar: "\<forall>t\<in>set ts. toktype t \<in> set operand_types \<or> arithmetic t"
    and l: "toktype l3 = ''LT''" "toktype l4 = ''LT''"
    by simp_all
  from endl_after_arithmetic(1) [OF r _ ar _ l, of "en # s # rest"]
  have "expr_operand True [] (ts @ l3 # l4 # en # s # rest) = Inr (e, True, en # s # rest)"
    by simp
  with a show "stmt_head (c # l1 # l2 # ts @ l3 # l4 # en # s # rest)
      = Inr (Stmt (p_output_endl e), rest)"
    by (simp add: stmt_head_def and_then_def)
next
  show "ntype (p_output_plain e) = ''output''" by (simp add: p_output_plain_def)
next
  show "ntype (p_output_endl e) = ''output''" by (simp add: p_output_endl_def)
next
  show "transpile float_str 1 ''cout << a < b;''
      = (Inr (''print(a < b, end='' @ [CHR 0x27, CHR 0x27] @ '')\<newline>''), 1)"
    by code_simp
next
  show "transpile float_str 1 ''cout << a + b << endl;''
       = (Inr (''print(a + b, end='' @ [CHR 0x27, CHR 0x5C, CHR ''n'', CHR 0x27] @ '')\<newline>''), 1)"
    by code_simp
qed

text \<open>
  An instance: the tokens of \<^verbatim>\<open>cout << a < b;\<close> and of \<^verbatim>\<open>cout << a + b << endl;\<close>.
\<close>

theorem output_one_expression_witness:
  "expression [\<lparr>toktype = ''IDENTIFIER'', tokvalue = VStr ''a'', toklineno = 1\<rparr>,
               \<lparr>toktype = ''LT'', tokvalue = VStr ''<'', toklineno = 1\<rparr>,
               \<lparr>toktype = ''IDENTIFIER'', tokvalue = VStr ''b'', toklineno = 1\<rparr>,
               \<lparr>toktype = ''SEMICOLON'', tokvalue = VStr '';'', toklineno = 1\<rparr>]
     = Inr (p_expression_binop (p_expression_literal (VStr ''a'')) (VStr ''<'')
              (p_expression_literal (VStr ''b'')),
            [\<lparr>toktype = ''SEMICOLON'', tokvalue = VStr '';'', toklineno = 1\<rparr>])
   \<and> stmt_head [\<lparr>toktype = ''COUT'', tokvalue = VStr ''cout'', toklineno = 1\<rparr>,
                 \<lparr>toktype = ''LT'', tokvalue = VStr ''<'', toklineno = 1\<rparr>,
                 \<lparr>toktype = ''LT'', tokvalue = VStr ''<'', toklineno = 1\<rparr>,
                 \<lparr>toktype = ''IDENTIFIER'', tokvalue = VStr ''a'', toklineno = 1\<rparr>,
                 \<lparr>toktype = ''LT'', tokvalue = VStr ''<'', toklineno = 1\<rparr>,
                 \<lparr>toktype = ''IDENTIFIER'', tokvalue = VStr ''b'', toklineno = 1\<rparr>,
                 \<lparr>toktype = ''SEMICOLON'', tokvalue = VStr '';'', toklineno = 1\<rparr>]
     = Inr (Stmt (p_output_plain
                   (p_expression_binop (p_expression_literal (VStr ''a'')) (VStr ''<'')
                      (p_expression_literal (VStr ''b'')))), [])
   \<and> expression [\<lparr>toktype = ''IDENTIFIER'', tokvalue = VStr ''a'', toklineno = 1\<rparr>,
               \<lparr>toktype = ''PLUS'', tokvalue = VStr ''+'', toklineno = 1\<rparr>,
               \<lparr>toktype = ''IDENTIFIER'', tokvalue = VStr ''b'', toklineno = 1\<rparr>]
     = Inr (p_expression_binop (p_expression_literal (VStr ''a'')) (VStr ''+'')
              (p_expression_literal (VStr ''b'')), [])
   \<and> stmt_head [\<lparr>toktype = ''COUT'', tokvalue = VStr ''cout'', toklineno = 1\<rparr>,
                 \<lparr>toktype = ''LT'', tokvalue = VStr ''<'', toklineno = 1\<rparr>,
                 \<lparr>toktype = ''LT'', tokvalue = VStr ''<'', toklineno = 1\<rparr>,
                 \<lparr>toktype = ''IDENTIFIER'', tokvalue = VStr ''a'', toklineno = 1\<rparr>,
                 \<lparr>toktype = ''PLUS'', tokvalue = VStr ''+'', toklineno = 1\<rparr>,
                 \<lparr>toktype = ''IDENTIFIER'', tokvalue = VStr ''b'', toklineno = 1\<rparr>,
                 \<lparr>toktype = ''LT'', tokvalue = VStr ''<'', toklineno = 1\<rparr>,
                 \<lparr>toktype = ''LT'', tokvalue = VStr ''<'', toklineno = 1\<rparr>,
                 \<lparr>toktype = ''ENDL'', tokvalue = VStr ''endl'', toklineno = 1\<rparr>,
                 \<lparr>toktype = ''SEMICOLON'', tokvalue = VStr '';'', toklineno = 1\<rparr>]
     = Inr (Stmt (p_output_endl
                   (p_expression_binop (p_expression_literal (VStr ''a'')) (VStr ''+'')
                      (p_expression_literal (VStr ''b'')))), [])"
proof -
  let ?cout = "\<lparr>toktype = ''COUT'', tokvalue = VStr ''cout'', toklineno = 1\<rparr>"
  let ?lt = "\<lparr>toktype = ''LT'', tokvalue = VStr ''<'', toklineno = 1\<rparr>"
  let ?a = "\<lparr>toktype = ''IDENTIFIER'', tokvalue = VStr ''a'', toklineno = 1\<rparr>"
  let ?b = "\<lparr>toktype = ''IDENTIFIER'', tokvalue = VStr ''b'', toklineno = 1\<rparr>"
  let ?plus = "\<lparr>toktype = ''PLUS'', tokvalue = VStr ''+'', toklineno = 1\<rparr>"
  let ?endl = "\<lparr>toktype = ''ENDL'', tokvalue = VStr ''endl'', toklineno = 1\<rparr>"
  let ?semi = "\<lparr>toktype = ''SEMICOLON'', tokvalue = VStr '';'', toklineno = 1\<rparr>"
  let ?lt_e = "p_expression_binop (p_expression_literal (VStr ''a'')) (VStr ''<'')
                 (p_expression_literal (VStr ''b''))"
  let ?plus_e = "p_expression_binop (p_expression_literal (VStr ''a'')) (VStr ''+'')
                   (p_expression_literal (VStr ''b''))"
  have x1: "expression [?a, ?lt, ?b, ?semi] = Inr (?lt_e, [?semi])"
    by code_simp
  have x2: "expression [?a, ?plus, ?b] = Inr (?plus_e, [])"
    by code_simp
  have ar: "\<forall>t\<in>set [?a, ?plus, ?b]. toktype t \<in> set operand_types \<or> arithmetic t"
    by (simp add: operand_types_def arithmetic_def binary_ops_def prec_of_def precedence_def)
  from output_one_expression
    [where c = ?cout and ?l1.0 = ?lt and ?l2.0 = ?lt and ts = "[?a, ?lt, ?b, ?semi]"
      and e = ?lt_e and s = ?semi and rest = "[]" and float_str = id]
    output_one_expression
    [where c = ?cout and ?l1.0 = ?lt and ?l2.0 = ?lt and ts = "[?a, ?plus, ?b]"
      and e = ?plus_e and ?l3.0 = ?lt and ?l4.0 = ?lt and en = ?endl and s = ?semi
      and rest = "[]" and float_str = id] x1 x2 ar
  show ?thesis by simp
qed

section \<open>Precedence and associativity in the parsed expression\<close>





































end
